theory Spec2Isabelle
  imports Complex_Main
begin

section \<open>Library functions of Go used by the decoders\<close>

text \<open>
  Go strings are byte sequences; they are modelled as \<open>string\<close> (a list of 8-bit
  characters). Go's \<open>int\<close> is a 64-bit signed integer: it is modelled as \<open>int\<close>, with the
  wrap-around written out (\<open>wrap64\<close>) at every addition, multiplication and negation that
  the source performs on an \<open>int\<close>. \<open>float64\<close> values are modelled as exact reals: the
  decoders only add, divide and negate decimal numbers of a few digits, so a computed
  coordinate differs from the real number below by rounding only. The comparisons of the
  source on such values are of a number of minutes \<open>w + h / 100\<close> or \<open>w + t / 10\<close> against 60,
  for integers \<open>w\<close>, \<open>h\<close>, \<open>t\<close> read from at most two characters: the number is 60 or more, or
  at most 59.99, and \<open>float64\<close> decides that as the reals do.
\<close>

definition wrap64 :: "int \<Rightarrow> int" where
  "wrap64 n = (n + 2 ^ 63) mod 2 ^ 64 - 2 ^ 63"

text \<open>
  The operators \<open>/\<close> and \<open>%\<close> of Go on \<open>int\<close>: the quotient is rounded towards zero, and the
  remainder takes the sign of the dividend.
\<close>

definition go_div :: "int \<Rightarrow> int \<Rightarrow> int" where
  "go_div a b = (if (a < 0) = (b < 0) then \<bar>a\<bar> div \<bar>b\<bar> else - (\<bar>a\<bar> div \<bar>b\<bar>))"

definition go_mod :: "int \<Rightarrow> int \<Rightarrow> int" where
  "go_mod a b = a - b * go_div a b"

definition isDigit :: "char \<Rightarrow> bool" where
  "isDigit c \<longleftrightarrow> (48::nat) \<le> of_char c \<and> of_char c \<le> (57::nat)"

definition isUpper :: "char \<Rightarrow> bool" where
  "isUpper c \<longleftrightarrow> (65::nat) \<le> of_char c \<and> of_char c \<le> (90::nat)"

definition digitVal :: "char \<Rightarrow> int" where
  "digitVal c = int (of_char c) - 48"

text \<open>The value of a run of decimal digits, most significant first.\<close>

definition decimal :: "string \<Rightarrow> int" where
  "decimal s = foldl (\<lambda>n c. n * 10 + digitVal c) 0 s"

text \<open>
  \<open>strconv.Atoi\<close>: an optional sign, then one or more decimal digits and nothing else; a
  value outside the 64-bit range is an error. \<open>None\<close> is the non-nil error.
\<close>

definition Atoi :: "string \<Rightarrow> int option" where
  "Atoi s =
     (let body = (case s of [] \<Rightarrow> [] | c # cs \<Rightarrow> if c = CHR ''-'' \<or> c = CHR ''+'' then cs else s);
          n = (case s of [] \<Rightarrow> 0 | c # cs \<Rightarrow> if c = CHR ''-'' then - decimal body else decimal body)
      in if body = [] \<or> \<not> list_all isDigit body then None
         else if n < - (2 ^ 63) \<or> 2 ^ 63 - 1 < n then None
         else Some n)"

text \<open>
  \<open>unicode.IsSpace\<close> on the UTF-8 bytes of a string: \<open>spaceWidth s\<close> is the number of bytes of
  the white-space code point that \<open>s\<close> starts with, and 0 when it starts with none. The
  code points are the six ASCII ones, U+0085, U+00A0, U+1680, U+2000 to U+200A, U+2028,
  U+2029, U+202F, U+205F and U+3000.
\<close>

definition asciiSpace :: "char \<Rightarrow> bool" where
  "asciiSpace c \<longleftrightarrow> c \<in> set [CHR 0x09, CHR 0x0A, CHR 0x0B, CHR 0x0C, CHR 0x0D, CHR 0x20]"

fun spaceWidth :: "string \<Rightarrow> nat" where
  "spaceWidth [] = 0"
| "spaceWidth [c] = (if asciiSpace c then 1 else 0)"
| "spaceWidth [c, d] =
     (if asciiSpace c then 1
      else if c = CHR 0xC2 \<and> (d = CHR 0x85 \<or> d = CHR 0xA0) then 2 else 0)"
| "spaceWidth (c # d # e # _) =
     (if asciiSpace c then 1
      else if c = CHR 0xC2 \<and> (d = CHR 0x85 \<or> d = CHR 0xA0) then 2
      else if c = CHR 0xE1 \<and> d = CHR 0x9A \<and> e = CHR 0x80 then 3
      else if c = CHR 0xE2 \<and> d = CHR 0x80 \<and>
              ((128::nat) \<le> of_char e \<and> of_char e \<le> (138::nat) \<or>
               e = CHR 0xA8 \<or> e = CHR 0xA9 \<or> e = CHR 0xAF) then 3
      else if c = CHR 0xE2 \<and> d = CHR 0x81 \<and> e = CHR 0x9F then 3
      else if c = CHR 0xE3 \<and> d = CHR 0x80 \<and> e = CHR 0x80 then 3
      else 0)"

text \<open>The same test at the end of a string, for trimming on the right.\<close>

definition spaceWidthEnd :: "string \<Rightarrow> nat" where
  "spaceWidthEnd s =
     (let n = length s in
      if 1 \<le> n \<and> spaceWidth (drop (n - 1) s) = 1 then 1
      else if 2 \<le> n \<and> spaceWidth (drop (n - 2) s) = 2 then 2
      else if 3 \<le> n \<and> spaceWidth (drop (n - 3) s) = 3 then 3
      else 0)"

function TrimLeft :: "string \<Rightarrow> string" where
  "TrimLeft s = (if spaceWidth s = 0 then s else TrimLeft (drop (spaceWidth s) s))"
  by pat_completeness auto
termination
proof (relation "measure length")
  show "wf (measure length)" by simp
next
  fix s :: string
  assume "spaceWidth s \<noteq> 0"
  then have "s \<noteq> []"
    by (cases s) auto
  with \<open>spaceWidth s \<noteq> 0\<close>
  show "(drop (spaceWidth s) s, s) \<in> measure length"
    by simp
qed

function TrimRight :: "string \<Rightarrow> string" where
  "TrimRight s =
     (if spaceWidthEnd s = 0 then s else TrimRight (take (length s - spaceWidthEnd s) s))"
  by pat_completeness auto
termination
proof (relation "measure length")
  show "wf (measure length)" by simp
next
  fix s :: string
  assume "spaceWidthEnd s \<noteq> 0"
  then have "s \<noteq> []"
    by (auto simp: spaceWidthEnd_def)
  with \<open>spaceWidthEnd s \<noteq> 0\<close>
  show "(take (length s - spaceWidthEnd s) s, s) \<in> measure length"
    by simp
qed

declare TrimLeft.simps [simp del] TrimRight.simps [simp del]

definition TrimSpace :: "string \<Rightarrow> string" where
  "TrimSpace s = TrimRight (TrimLeft s)"

text \<open>
  \<open>strings.Fields\<close>: the maximal runs of bytes that hold no white space, in order.
  \<open>fieldsAux cur s\<close> scans \<open>s\<close> with the field read so far in \<open>cur\<close> (reversed).
\<close>

function fieldsAux :: "string \<Rightarrow> string \<Rightarrow> string list" where
  "fieldsAux cur [] = (if cur = [] then [] else [rev cur])"
| "fieldsAux cur (c # cs) =
     (if spaceWidth (c # cs) = 0 then fieldsAux (c # cur) cs
      else (if cur = [] then [] else [rev cur]) @ fieldsAux [] (drop (spaceWidth (c # cs)) (c # cs)))"
  by pat_completeness auto
termination
proof (relation "measure (\<lambda>(cur, s). length s)")
  show "wf (measure (\<lambda>(cur :: string, s :: string). length s))" by simp
next
  fix cur :: string and c :: char and cs :: string
  show "((c # cur, cs), (cur, c # cs)) \<in> measure (\<lambda>(cur, s). length s)"
    by simp
next
  fix cur :: string and c :: char and cs :: string
  assume "spaceWidth (c # cs) \<noteq> 0"
  then show "(([], drop (spaceWidth (c # cs)) (c # cs)), (cur, c # cs)) \<in> measure (\<lambda>(cur, s). length s)"
    by simp
qed

definition Fields :: "string \<Rightarrow> string list" where
  "Fields s = fieldsAux [] s"

text \<open>\<open>strings.HasPrefix\<close>, \<open>strings.Index\<close> (\<open>None\<close> is -1), \<open>strings.Contains\<close>, \<open>strings.TrimPrefix\<close>.\<close>

definition HasPrefix :: "string \<Rightarrow> string \<Rightarrow> bool" where
  "HasPrefix s p \<longleftrightarrow> take (length p) s = p"

fun Index :: "string \<Rightarrow> string \<Rightarrow> nat option" where
  "Index [] p = (if p = [] then Some 0 else None)"
| "Index (c # cs) p =
     (if HasPrefix (c # cs) p then Some 0
      else (case Index cs p of None \<Rightarrow> None | Some i \<Rightarrow> Some (Suc i)))"

definition Contains :: "string \<Rightarrow> string \<Rightarrow> bool" where
  "Contains s p \<longleftrightarrow> Index s p \<noteq> None"

definition TrimPrefix :: "string \<Rightarrow> string \<Rightarrow> string" where
  "TrimPrefix s p = (if HasPrefix s p then drop (length p) s else s)"

section \<open>Label 15: the FST coordinate decoder\<close>

text \<open>
  \<open>parseCoord\<close> of \<open>internal/parsers/fst/parser.go\<close>. The Go slice \<open>s[i:j]\<close> is
  \<open>take (j - i) (drop i s)\<close>; every slice below is taken in a branch that fixes the
  length of \<open>s\<close>, so none is out of range.

  In the branch for six characters the source either returns at once (the decimal
  reading) or leaves the branch with the variables \<open>deg\<close> and \<open>min\<close> set; \<open>resolve6\<close>
  computes which.
\<close>

datatype coord_step = Return real | Resolved int real

definition tryDDMMTT :: "string \<Rightarrow> coord_step" where
  "tryDDMMTT s =
     (case (Atoi (take 2 s), Atoi (take 2 (drop 2 s)), Atoi (take 2 (drop 4 s))) of
        (Some deg2, Some minWhole2, Some minHundredths2) \<Rightarrow>
          (let minTest = real_of_int minWhole2 + real_of_int minHundredths2 / 100 in
           if deg2 \<le> 180 \<and> minTest < 60 then Resolved deg2 minTest
           else if deg2 \<le> 90 \<and> minTest \<ge> 60 then
             (case Atoi (take 4 (drop 2 s)) of
                Some decimal4 \<Rightarrow> Return (real_of_int deg2 + real_of_int decimal4 / 10000)
              | None \<Rightarrow> Resolved 0 0)
           else Resolved 0 0)
      | _ \<Rightarrow> Resolved 0 0)"

definition tryDDDMMD :: "string \<Rightarrow> int \<Rightarrow> real \<Rightarrow> coord_step" where
  "tryDDDMMD s deg mn =
     (case (Atoi (take 3 s), Atoi (take 2 (drop 3 s)), Atoi (take 1 (drop 5 s))) of
        (Some deg3, Some minWhole3, Some minTenths3) \<Rightarrow>
          (if deg = 0 \<and> deg3 > 90 \<and> deg3 \<le> 180 then
             (let minTest = real_of_int minWhole3 + real_of_int minTenths3 / 10 in
              if minTest < 60 then Resolved deg3 minTest else Resolved deg mn)
           else Resolved deg mn)
      | _ \<Rightarrow> Resolved deg mn)"

definition resolve6 :: "string \<Rightarrow> coord_step" where
  "resolve6 s =
     (case tryDDMMTT s of
        Return r \<Rightarrow> Return r
      | Resolved deg mn \<Rightarrow> tryDDDMMD s deg mn)"

definition parseCoord :: "string \<Rightarrow> real" where
  "parseCoord s =
     (if length s < 5 then 0
      else if length s = 5 then
        (case Atoi (take 2 s) of None \<Rightarrow> 0 | Some deg \<Rightarrow>
         case Atoi (take 2 (drop 2 s)) of None \<Rightarrow> 0 | Some minWhole \<Rightarrow>
         case Atoi (take 1 (drop 4 s)) of None \<Rightarrow> 0 | Some minTenths \<Rightarrow>
           (let mn = real_of_int minWhole + real_of_int minTenths / 10 in
            if mn \<ge> 60 then 0 else real_of_int deg + mn / 60))
      else if length s = 6 then
        (case resolve6 s of
           Return r \<Rightarrow> r
         | Resolved deg mn \<Rightarrow>
             if deg = 0 then 0
             else if mn \<ge> 60 then 0
             else real_of_int deg + mn / 60)
      else if length s = 7 then
        (case Atoi (take 3 s) of None \<Rightarrow> 0 | Some deg \<Rightarrow>
         if deg > 180 then 0
         else case Atoi (take 4 (drop 3 s)) of None \<Rightarrow> 0 | Some decimal4 \<Rightarrow>
           real_of_int deg + real_of_int decimal4 / 10000)
      else 0)"

section \<open>Messages and pattern matches\<close>

text \<open>
  The fields of \<open>acars.Message\<close> that the decoders read. \<open>ID\<close> is a 64-bit integer, and
  \<open>int64(msg.ID)\<close> is the identity on it.
\<close>

record Message =
  ID :: int
  Timestamp :: string
  Label :: string
  Text :: string
  Tail :: string

text \<open>
  A match of the pattern compiler: the name of the format that matched and its named
  captures. Reading a capture that is absent gives the empty string, as a Go map does.
\<close>

record Match =
  FormatName :: string
  Captures :: "(string \<times> string) list"

definition capture :: "Match \<Rightarrow> string \<Rightarrow> string" where
  "capture m k = (case map_of (Captures m) k of None \<Rightarrow> [] | Some v \<Rightarrow> v)"

section \<open>Label 15: the FST decoder\<close>

record Result =
  MsgID :: int
  Timestamp_r :: string
  Tail_r :: string
  Sequence :: string
  Origin :: string
  Destination :: string
  Latitude :: real
  Longitude :: real
  FlightLevel :: int
  GroundSpeed :: int
  SpeedUnit :: string
  IAS :: int
  TAS :: int
  SpeedType :: string
  Temperature :: int
  WindSpeed :: int
  WindDirection :: int
  RawData :: string

subsection \<open>The fields after the coordinates\<close>

text \<open>
  \<open>parseFields\<close> runs three blocks in turn on \<open>parts = strings.Fields(data)\<close>: the flight
  level, the speed token, and the scan for temperature and wind. Each block is a function
  from the result to the updated result.
\<close>

definition fieldFlightLevel :: "string list \<Rightarrow> Result \<Rightarrow> Result" where
  "fieldFlightLevel parts r =
     (if length parts \<ge> 1 then
        (case Atoi (parts ! 0) of
           Some fl \<Rightarrow> if fl \<ge> 0 \<and> fl \<le> 600 then r\<lparr>FlightLevel := fl\<rparr> else r
         | None \<Rightarrow> r)
      else r)"

definition nextSpeedField :: "string list \<Rightarrow> Result \<Rightarrow> Result" where
  "nextSpeedField parts r =
     (if length parts \<ge> 3 then
        (case Atoi (parts ! 2) of
           Some nextSpeed \<Rightarrow>
             if nextSpeed \<ge> 100 \<and> nextSpeed < 1000 then
               (if nextSpeed \<ge> 700 then
                  r\<lparr>GroundSpeed := nextSpeed, SpeedUnit := ''kmh'', SpeedType := ''IAS+KMH''\<rparr>
                else if nextSpeed \<ge> 100 \<and> nextSpeed < 700 then
                  r\<lparr>GroundSpeed := nextSpeed, SpeedUnit := ''knots'', SpeedType := ''IAS+GS''\<rparr>
                else r)
             else r
         | None \<Rightarrow> r)
      else r)"

definition classifySpeed :: "string list \<Rightarrow> string \<Rightarrow> int \<Rightarrow> Result \<Rightarrow> Result" where
  "classifySpeed parts speedStr speed r =
     (if length speedStr = 7 \<and> speed > 1000000 then
        (case Atoi (take 3 speedStr) of
           Some ias \<Rightarrow>
             (case Atoi (take 4 (drop 3 speedStr)) of
                Some kmh \<Rightarrow>
                  r\<lparr>IAS := ias, GroundSpeed := kmh, SpeedUnit := ''kmh'', SpeedType := ''IAS+KMH''\<rparr>
              | None \<Rightarrow> r\<lparr>IAS := ias\<rparr>)
         | None \<Rightarrow> r)
      else if speed > 1000 \<and> length speedStr > 4 then
        (case Atoi (take 3 speedStr) of
           Some s \<Rightarrow> r\<lparr>IAS := s, SpeedType := ''IAS''\<rparr>
         | None \<Rightarrow> r)
      else if speed \<ge> 700 \<and> speed \<le> 1000 then
        r\<lparr>GroundSpeed := speed, SpeedUnit := ''kmh'', SpeedType := ''KMH''\<rparr>
      else if speed \<ge> 350 \<and> speed < 700 then
        r\<lparr>GroundSpeed := speed, SpeedUnit := ''knots'', SpeedType := ''GS''\<rparr>
      else if speed \<ge> 100 \<and> speed < 350 then
        nextSpeedField parts (r\<lparr>IAS := speed, SpeedType := ''IAS''\<rparr>)
      else
        r\<lparr>GroundSpeed := speed, SpeedUnit := ''knots'', SpeedType := ''GS''\<rparr>)"

definition fieldSpeed :: "string list \<Rightarrow> Result \<Rightarrow> Result" where
  "fieldSpeed parts r =
     (if length parts \<ge> 2 then
        (case Atoi (parts ! 1) of
           Some speed \<Rightarrow> if speed > 0 then classifySpeed parts (parts ! 1) speed r else r
         | None \<Rightarrow> r)
      else r)"

text \<open>
  The regular expression \<open>^([MP])(\d{2,3})C?$\<close> on one token: the two groups of a match.
  A digit is not a \<open>C\<close>, so the digits are the token without its first character and without
  a final \<open>C\<close>.
\<close>

definition tempPattern :: "string \<Rightarrow> (string \<times> string) option" where
  "tempPattern tok =
     (case tok of
        [] \<Rightarrow> None
      | c # body \<Rightarrow>
          (let ds = (if body \<noteq> [] \<and> last body = CHR ''C'' then butlast body else body) in
           if (c = CHR ''M'' \<or> c = CHR ''P'') \<and> list_all isDigit ds \<and>
              (length ds = 2 \<or> length ds = 3)
           then Some ([c], ds) else None))"

definition windSSDDD :: "string \<Rightarrow> Result \<Rightarrow> Result" where
  "windSSDDD windData r =
     (case Atoi (take 2 windData) of
        Some ws \<Rightarrow>
          if ws \<ge> 0 \<and> ws \<le> 99 then
            (case Atoi (take 3 (drop 2 windData)) of
               Some wd \<Rightarrow>
                 if wd \<ge> 0 \<and> wd \<le> 360 then r\<lparr>WindSpeed := ws, WindDirection := wd\<rparr> else r
             | None \<Rightarrow> r)
          else r
      | None \<Rightarrow> r)"

definition windSSSDDD :: "string \<Rightarrow> Result \<Rightarrow> Result" where
  "windSSSDDD windData r =
     (if WindSpeed r = 0 \<and> length windData \<ge> 6 then
        (case Atoi (take 3 windData) of
           Some ws \<Rightarrow>
             if ws \<ge> 100 \<and> ws \<le> 999 then
               (case Atoi (take 3 (drop 3 windData)) of
                  Some wd \<Rightarrow>
                    if wd \<ge> 0 \<and> wd \<le> 360 then r\<lparr>WindSpeed := ws, WindDirection := wd\<rparr> else r
                | None \<Rightarrow> r)
             else r
         | None \<Rightarrow> r)
      else r)"

definition parseWind :: "string \<Rightarrow> Result \<Rightarrow> Result" where
  "parseWind windData r =
     (if length windData \<ge> 5 then windSSSDDD windData (windSSDDD windData r) else r)"

text \<open>
  The loop \<open>for i := 2; i < len(parts); i++\<close>, as a recursion on \<open>parts[i:]\<close>: the first
  token that matches the temperature pattern sets the temperature, the token after it (if
  there is one) is read as wind, and the loop ends.
\<close>

fun scanTemperature :: "string list \<Rightarrow> Result \<Rightarrow> Result" where
  "scanTemperature [] r = r"
| "scanTemperature (p # ps) r =
     (case tempPattern p of
        None \<Rightarrow> scanTemperature ps r
      | Some (sign, ds) \<Rightarrow>
          (case Atoi ds of
             None \<Rightarrow> scanTemperature ps r
           | Some temp \<Rightarrow>
               (let r1 = (if sign = ''M'' then r\<lparr>Temperature := wrap64 (- temp)\<rparr>
                          else r\<lparr>Temperature := temp\<rparr>)
                in case ps of [] \<Rightarrow> r1 | windData # _ \<Rightarrow> parseWind windData r1)))"

definition parseFields :: "string \<Rightarrow> Result \<Rightarrow> Result" where
  "parseFields data r =
     (let parts = Fields data
      in scanTemperature (drop 2 parts) (fieldSpeed parts (fieldFlightLevel parts r)))"

text \<open>The result with every field at its zero value, to run \<open>parseFields\<close> on.\<close>

definition emptyResult :: Result where
  "emptyResult =
     \<lparr>MsgID = 0, Timestamp_r = [], Tail_r = [], Sequence = [], Origin = [], Destination = [],
      Latitude = 0, Longitude = 0, FlightLevel = 0, GroundSpeed = 0, SpeedUnit = [], IAS = 0,
      TAS = 0, SpeedType = [], Temperature = 0, WindSpeed = 0, WindDirection = 0,
      RawData = []\<rparr>"

subsection \<open>The header formats and the pattern compiler\<close>

text \<open>
  The three formats of \<open>internal/parsers/fst/grok.go\<close> have one shape,
  \<open>FST(\d{2})({ICAO})({ICAO})({LAT_DIR})(\d{n})({LON_DIR})(\d{m})(.+)\<close>, and differ in the
  numbers of digits \<open>n\<close> and \<open>m\<close>; a format is its name and the two numbers.
\<close>

record Format =
  Name :: string
  latDigits :: nat
  lonDigits :: nat

definition Formats :: "Format list" where
  "Formats =
     [\<lparr>Name = ''fst_7digit_lon'', latDigits = 6, lonDigits = 7\<rparr>,
      \<lparr>Name = ''fst_6digit'', latDigits = 6, lonDigits = 6\<rparr>,
      \<lparr>Name = ''fst_5digit_lon'', latDigits = 5, lonDigits = 5\<rparr>]"

text \<open>
  Modelled from the spec: the package \<open>patterns\<close> (the base patterns \<open>ICAO\<close>, \<open>LAT_DIR\<close>,
  \<open>LON_DIR\<close> and the compiler with its \<open>Compile\<close> and \<open>Parse\<close>) is not among the sources.
  The spec gives \<open>LAT_DIR\<close> and \<open>LON_DIR\<close> as the single characters N or S and E or W, and
  \<open>ICAO\<close> as a four-letter identifier whose character classes it leaves open: the test for
  a four-character token is the parameter \<open>ICAO\<close> of the compiler, and \<open>grokErr\<close> says
  whether compiling the formats failed. \<open>Parse\<close> tries each format in declaration order
  and returns the first whose expression matches somewhere in the text; the compiler adds
  no anchors. Every piece of a format but the last has a fixed width, so an expression
  matches at a position exactly if the pieces are found there one after the other and at
  least one character other than a line feed follows; \<open>rest\<close> is the run of such characters.
\<close>

record Compiler =
  grokErr :: bool
  ICAO :: "string \<Rightarrow> bool"

definition matchAt :: "Compiler \<Rightarrow> Format \<Rightarrow> string \<Rightarrow> Match option" where
  "matchAt c f t =
     (let n = latDigits f; m = lonDigits f;
          seq = take 2 (drop 3 t);
          origin = take 4 (drop 5 t);
          dest = take 4 (drop 9 t);
          lat_dir = take 1 (drop 13 t);
          lat = take n (drop 14 t);
          lon_dir = take 1 (drop (14 + n) t);
          lon = take m (drop (15 + n) t);
          rest = takeWhile (\<lambda>ch. ch \<noteq> CHR 0x0A) (drop (15 + n + m) t)
      in if take 3 t = ''FST'' \<and> length seq = 2 \<and> list_all isDigit seq \<and>
            length origin = 4 \<and> ICAO c origin \<and> length dest = 4 \<and> ICAO c dest \<and>
            (lat_dir = ''N'' \<or> lat_dir = ''S'') \<and> length lat = n \<and> list_all isDigit lat \<and>
            (lon_dir = ''E'' \<or> lon_dir = ''W'') \<and> length lon = m \<and> list_all isDigit lon \<and>
            rest \<noteq> []
         then Some \<lparr>FormatName = Name f,
                    Captures = [(''seq'', seq), (''origin'', origin), (''dest'', dest),
                                (''lat_dir'', lat_dir), (''lat'', lat), (''lon_dir'', lon_dir),
                                (''lon'', lon), (''rest'', rest)]\<rparr>
         else None)"

fun searchFormat :: "Compiler \<Rightarrow> Format \<Rightarrow> string \<Rightarrow> Match option" where
  "searchFormat c f [] = matchAt c f []"
| "searchFormat c f (ch # t) =
     (case matchAt c f (ch # t) of
        Some m \<Rightarrow> Some m
      | None \<Rightarrow> searchFormat c f t)"

fun firstFormat :: "Compiler \<Rightarrow> Format list \<Rightarrow> string \<Rightarrow> Match option" where
  "firstFormat c [] t = None"
| "firstFormat c (f # fs) t =
     (case searchFormat c f t of
        Some m \<Rightarrow> Some m
      | None \<Rightarrow> firstFormat c fs t)"

definition compilerParse :: "Compiler \<Rightarrow> string \<Rightarrow> Match option" where
  "compilerParse c t = firstFormat c Formats t"

text \<open>
  Modelled from the spec: a test for \<open>ICAO\<close> tokens to run the decoder on concrete
  messages, four capital letters.
\<close>

definition icaoLetters :: "string \<Rightarrow> bool" where
  "icaoLetters s \<longleftrightarrow> length s = 4 \<and> list_all isUpper s"

subsection \<open>The parser\<close>

definition QuickCheck15 :: "string \<Rightarrow> bool" where
  "QuickCheck15 text \<longleftrightarrow>
     HasPrefix (TrimSpace text) ''FST'' \<or> Contains text ''FST01'' \<or> Contains text ''FST02''"

definition stripPrefix :: "string \<Rightarrow> string" where
  "stripPrefix text =
     (case Index text ''FST'' of
        Some idx \<Rightarrow> if idx > 0 then drop idx text else text
      | None \<Rightarrow> text)"

definition fromMatch :: "Message \<Rightarrow> Match \<Rightarrow> Result" where
  "fromMatch msg m =
     (let result = \<lparr>MsgID = ID msg, Timestamp_r = Timestamp msg, Tail_r = Tail msg,
                     Sequence = capture m ''seq'', Origin = capture m ''origin'',
                     Destination = capture m ''dest'', Latitude = 0, Longitude = 0,
                     FlightLevel = 0, GroundSpeed = 0, SpeedUnit = [], IAS = 0, TAS = 0,
                     SpeedType = [], Temperature = 0, WindSpeed = 0, WindDirection = 0,
                     RawData = []\<rparr>;
          lat = parseCoord (capture m ''lat'');
          lat = (if capture m ''lat_dir'' = ''S'' then - lat else lat);
          result = result\<lparr>Latitude := lat\<rparr>;
          lon = parseCoord (capture m ''lon'');
          lon = (if capture m ''lon_dir'' = ''W'' then - lon else lon);
          result = result\<lparr>Longitude := lon\<rparr>;
          rest = capture m ''rest''
      in if length rest > 0 then parseFields rest (result\<lparr>RawData := rest\<rparr>) else result)"

definition Parse15 :: "Compiler \<Rightarrow> Message \<Rightarrow> Result option" where
  "Parse15 c msg =
     (if Text msg = [] then None
      else
        (let text = stripPrefix (TrimSpace (Text msg))
         in if grokErr c then None
            else (case compilerParse c text of
                    None \<Rightarrow> None
                  | Some m \<Rightarrow> Some (fromMatch msg m))))"

section \<open>Label 80: position reports with a header\<close>

record Result80 =
  MsgID80 :: int
  Timestamp80 :: string
  Tail80 :: string
  MsgType :: string
  FlightNum :: string
  OriginICAO :: string
  OriginName :: string
  DestICAO :: string
  DestName :: string
  Latitude80 :: real
  Longitude80 :: real
  Altitude :: int
  Mach :: string
  TAS80 :: int
  FuelOnBoard :: int
  ETA :: string
  ReportTime :: string
  WindDir :: int
  WindSpeedKts :: int
  WindSpeedKmh :: int
  OATC :: int
  OutTime :: string
  OffTime :: string
  OnTime :: string
  InTime :: string

text \<open>
  What the decoder takes from packages that are not among the sources: whether compiling
  the formats of label 80 failed, the matches \<open>ParseAll\<close> finds in a text (the formats
  themselves are not among the sources either), the airport names of
  \<open>airports.GetName\<close> and \<open>patterns.ParseDecimalCoord\<close>. They are parameters of the decoder.
\<close>

record Env80 =
  grokErr80 :: bool
  ParseAll :: "string \<Rightarrow> Match list"
  GetName :: "string \<Rightarrow> string"
  ParseDecimalCoord :: "string \<Rightarrow> string \<Rightarrow> real"

definition parseLabel80Coord :: "Env80 \<Rightarrow> string \<Rightarrow> string \<Rightarrow> real" where
  "parseLabel80Coord env s0 dir =
     (let s = TrimSpace s0 in
      if s = [] then 0
      else if Contains s ''.'' then ParseDecimalCoord env s dir
      else
        (let degDigits = (if dir = ''E'' \<or> dir = ''W''
                          then (if length s \<le> 5 then 2 else 3) else (2::nat))
         in if length s > degDigits
            then ParseDecimalCoord env (take degDigits s @ ''.'' @ drop degDigits s) dir
            else ParseDecimalCoord env s dir))"

text \<open>
  \<open>isLikelyFlight\<close>: the expressions \<open>^[A-Z]{2,3}\d{1,4}[A-Z]?$\<close> and \<open>^\d{1,4}$\<close>. Letters
  and digits are disjoint, so the first one holds exactly if the leading run of capitals
  has two or three letters, the run of digits after it one to four, and what remains is
  empty or one capital.
\<close>

definition flightPattern :: "string \<Rightarrow> bool" where
  "flightPattern s \<longleftrightarrow>
     (let letters = takeWhile isUpper s; r1 = dropWhile isUpper s;
          ds = takeWhile isDigit r1; r2 = dropWhile isDigit r1
      in (length letters = 2 \<or> length letters = 3) \<and> 1 \<le> length ds \<and> length ds \<le> 4 \<and>
         (r2 = [] \<or> (length r2 = 1 \<and> isUpper (hd r2))))"

definition digitsPattern :: "string \<Rightarrow> bool" where
  "digitsPattern s \<longleftrightarrow> list_all isDigit s \<and> 1 \<le> length s \<and> length s \<le> 4"

definition isLikelyFlight :: "string \<Rightarrow> bool" where
  "isLikelyFlight s0 \<longleftrightarrow>
     (let s = TrimSpace s0 in
      if s = [] then False
      else if Contains s ''/'' then False
      else if flightPattern s then True
      else digitsPattern s)"

definition formatHHMM :: "string \<Rightarrow> string" where
  "formatHHMM s0 =
     (let s = TrimSpace s0 in
      if s = [] then []
      else
        (let s = (if length s = 3 then ''0'' @ s else s) in
         if length s \<noteq> 4 then []
         else
           (let hh = take 2 s; mm = drop 2 s in
            case (Atoi hh, Atoi mm) of
              (Some h, Some m) \<Rightarrow>
                if h < 0 \<or> h > 23 \<or> m < 0 \<or> m > 59 then [] else hh @ '':'' @ mm
            | _ \<Rightarrow> [])))"

text \<open>
  The body of the loop over the matches: one case of the \<open>switch\<close> on the format name for
  each function below, and \<open>applyMatch\<close> the switch. The state is the result and the flag
  \<open>foundHeader\<close>.
\<close>

definition resolveNames :: "Env80 \<Rightarrow> Result80 \<Rightarrow> Result80" where
  "resolveNames env r =
     (let r1 = (if OriginICAO r \<noteq> [] then r\<lparr>OriginName := GetName env (OriginICAO r)\<rparr> else r)
      in if DestICAO r1 \<noteq> [] then r1\<lparr>DestName := GetName env (DestICAO r1)\<rparr> else r1)"

definition caseHeader :: "Env80 \<Rightarrow> Match \<Rightarrow> Result80 \<Rightarrow> Result80" where
  "caseHeader env m r =
     (let r1 = r\<lparr>MsgType := capture m ''msg_type'', OriginICAO := capture m ''origin'',
                  DestICAO := capture m ''dest'',
                  Tail80 := TrimPrefix (capture m ''tail'') ''.''\<rparr>;
          r2 = resolveNames env r1;
          tok = TrimSpace (capture m ''hdr1'')
      in if isLikelyFlight tok then r2\<lparr>FlightNum := tok\<rparr> else r2)"

definition caseAlt :: "Env80 \<Rightarrow> Match \<Rightarrow> Result80 \<Rightarrow> Result80" where
  "caseAlt env m r =
     resolveNames env
       (r\<lparr>FlightNum := capture m ''flight'', OriginICAO := capture m ''origin'',
          DestICAO := capture m ''dest'', MsgType := ''FLT''\<rparr>)"

definition caseAltitude :: "Match \<Rightarrow> Result80 \<Rightarrow> Result80" where
  "caseAltitude m r =
     (let altStr = TrimSpace (capture m ''altitude'') in
      case Atoi altStr of
        Some alt \<Rightarrow>
          if length altStr \<le> 3 \<and> alt > 0 \<and> alt \<le> 500
          then r\<lparr>Altitude := wrap64 (alt * 100)\<rparr>
          else r\<lparr>Altitude := alt\<rparr>
      | None \<Rightarrow> r)"

text \<open>The expression \<open>(spd*1852 + 500) / 1000\<close> of the wind case, on 64-bit integers.\<close>

definition knotsToKmh :: "int \<Rightarrow> int" where
  "knotsToKmh spd = go_div (wrap64 (wrap64 (spd * 1852) + 500)) 1000"

definition caseWind :: "Match \<Rightarrow> Result80 \<Rightarrow> Result80" where
  "caseWind m r =
     (let r1 = (case Atoi (capture m ''wdir'') of
                  Some d0 \<Rightarrow>
                    (let d = go_mod d0 360;
                         d = (if d < 0 then wrap64 (d + 360) else d)
                     in r\<lparr>WindDir := d\<rparr>)
                | None \<Rightarrow> r)
      in case Atoi (capture m ''wspd'') of
           Some spd \<Rightarrow>
             r1\<lparr>WindSpeedKts := spd, WindSpeedKmh := knotsToKmh spd\<rparr>
         | None \<Rightarrow> r1)"

definition applyMatch :: "Env80 \<Rightarrow> Match \<Rightarrow> Result80 \<times> bool \<Rightarrow> Result80 \<times> bool" where
  "applyMatch env m st =
     (let result = fst st; foundHeader = snd st; name = FormatName m in
      if name = ''header_format'' then (caseHeader env m result, True)
      else if name = ''alt_format'' then
        (if \<not> foundHeader then (caseAlt env m result, True) else (result, foundHeader))
      else if name = ''position'' then
        (result\<lparr>Latitude80 := parseLabel80Coord env (capture m ''lat'') (capture m ''lat_dir''),
                Longitude80 := parseLabel80Coord env (capture m ''lon'') (capture m ''lon_dir'')\<rparr>,
         foundHeader)
      else if name = ''altitude'' then (caseAltitude m result, foundHeader)
      else if name = ''mach'' then (result\<lparr>Mach := capture m ''mach''\<rparr>, foundHeader)
      else if name = ''tas'' then
        (case Atoi (capture m ''tas'') of
           Some tas \<Rightarrow> (result\<lparr>TAS80 := tas\<rparr>, foundHeader)
         | None \<Rightarrow> (result, foundHeader))
      else if name = ''fob'' then
        (case Atoi (capture m ''fob'') of
           Some fob \<Rightarrow> (result\<lparr>FuelOnBoard := fob\<rparr>, foundHeader)
         | None \<Rightarrow> (result, foundHeader))
      else if name = ''eta'' then (result\<lparr>ETA := capture m ''eta''\<rparr>, foundHeader)
      else if name = ''tme'' then
        (let t = formatHHMM (capture m ''tme'') in
         if t \<noteq> [] then (result\<lparr>ReportTime := t\<rparr>, foundHeader) else (result, foundHeader))
      else if name = ''wind'' then (caseWind m result, foundHeader)
      else if name = ''oat'' then
        (case Atoi (capture m ''oat'') of
           Some oat \<Rightarrow> (result\<lparr>OATC := oat\<rparr>, foundHeader)
         | None \<Rightarrow> (result, foundHeader))
      else if name = ''out_time'' then (result\<lparr>OutTime := capture m ''out''\<rparr>, foundHeader)
      else if name = ''off_time'' then (result\<lparr>OffTime := capture m ''off''\<rparr>, foundHeader)
      else if name = ''on_time'' then (result\<lparr>OnTime := capture m ''on''\<rparr>, foundHeader)
      else if name = ''in_time'' then (result\<lparr>InTime := capture m ''in''\<rparr>, foundHeader)
      else (result, foundHeader))"

fun applyMatches :: "Env80 \<Rightarrow> Match list \<Rightarrow> Result80 \<times> bool \<Rightarrow> Result80 \<times> bool" where
  "applyMatches env [] st = st"
| "applyMatches env (m # ms) st = applyMatches env ms (applyMatch env m st)"

definition newResult80 :: "Message \<Rightarrow> Result80" where
  "newResult80 msg =
     \<lparr>MsgID80 = ID msg, Timestamp80 = Timestamp msg, Tail80 = Tail msg, MsgType = [],
      FlightNum = [], OriginICAO = [], OriginName = [], DestICAO = [], DestName = [],
      Latitude80 = 0, Longitude80 = 0, Altitude = 0, Mach = [], TAS80 = 0, FuelOnBoard = 0,
      ETA = [], ReportTime = [], WindDir = 0, WindSpeedKts = 0, WindSpeedKmh = 0, OATC = 0,
      OutTime = [], OffTime = [], OnTime = [], InTime = []\<rparr>"

definition Parse80 :: "Env80 \<Rightarrow> Message \<Rightarrow> Result80 option" where
  "Parse80 env msg =
     (if Text msg = [] then None
      else
        (let text = TrimSpace (Text msg) in
         if grokErr80 env then None
         else
           (let st = applyMatches env (ParseAll env text) (newResult80 msg, False) in
            if \<not> snd st then None else Some (fst st))))"

definition QuickCheck80 :: "string \<Rightarrow> bool" where
  "QuickCheck80 text \<longleftrightarrow> True"

text \<open>
  To run the decoder on given matches: the environment whose compiler compiled, whose
  \<open>ParseAll\<close> finds the matches \<open>ms\<close> in every text, that knows no airport name and reads
  every coordinate as 0.
\<close>

definition fixedEnv :: "Match list \<Rightarrow> Env80" where
  "fixedEnv ms =
     \<lparr>grokErr80 = False, ParseAll = (\<lambda>text. ms), GetName = (\<lambda>icao. []),
      ParseDecimalCoord = (\<lambda>s dir. 0)\<rparr>"

section \<open>The registry\<close>

text \<open>
  A result of any decoder, with the method \<open>MessageID\<close> of the interface
  \<open>registry.Result\<close>; the two decoders above implement it by returning their \<open>MsgID\<close>.
\<close>

record Envelope =
  MsgIDe :: int
  Label_e :: string
  Tail_e :: string
  Text_e :: string

datatype AnyResult = Fst Result | Position Result80 | Env Envelope

fun MessageID :: "AnyResult \<Rightarrow> int" where
  "MessageID (Fst r) = MsgID r"
| "MessageID (Position r) = MsgID80 r"
| "MessageID (Env r) = MsgIDe r"

record Parser =
  PName :: string
  Labels :: "string list"
  Priority :: int
  QuickCheck :: "string \<Rightarrow> bool"
  Parse :: "Message \<Rightarrow> AnyResult option"

definition fstParser :: "Compiler \<Rightarrow> Parser" where
  "fstParser c =
     \<lparr>PName = ''fst'', Labels = [''15''], Priority = 100, QuickCheck = QuickCheck15,
      Parse = (\<lambda>msg. map_option Fst (Parse15 c msg))\<rparr>"

definition label80Parser :: "Env80 \<Rightarrow> Parser" where
  "label80Parser env =
     \<lparr>PName = ''label80'', Labels = [''80''], Priority = 100, QuickCheck = QuickCheck80,
      Parse = (\<lambda>msg. map_option Position (Parse80 env msg))\<rparr>"

text \<open>
  Modelled from the spec: the package \<open>registry\<close> and the envelope parser are not among
  the sources. A registry holds, for each label, the parsers registered for it in the
  order of their priority, and the content-based parsers in that order. \<open>dispatch_first\<close>
  runs the parsers of the message's label when the label is not empty, then the
  content-based ones, a parser being invoked only if its quick check accepts the text, and
  returns the first result; when there is none the envelope parser produces a minimal
  result with the label, the tail and the raw text, carrying the message's identifier as
  every result does.
\<close>

record Registry =
  by_label :: "string \<Rightarrow> Parser list"
  content_based :: "Parser list"

definition envelope :: "Message \<Rightarrow> AnyResult" where
  "envelope msg = Env \<lparr>MsgIDe = ID msg, Label_e = Label msg, Tail_e = Tail msg, Text_e = Text msg\<rparr>"

fun firstResult :: "Parser list \<Rightarrow> Message \<Rightarrow> AnyResult option" where
  "firstResult [] msg = None"
| "firstResult (p # ps) msg =
     (if QuickCheck p (Text msg)
      then (case Parse p msg of Some r \<Rightarrow> Some r | None \<Rightarrow> firstResult ps msg)
      else firstResult ps msg)"

definition dispatch_first :: "Registry \<Rightarrow> Message \<Rightarrow> AnyResult option" where
  "dispatch_first reg msg =
     (case (if Label msg \<noteq> [] then firstResult (by_label reg (Label msg)) msg else None) of
        Some r \<Rightarrow> Some r
      | None \<Rightarrow>
          (case firstResult (content_based reg) msg of
             Some r \<Rightarrow> Some r
           | None \<Rightarrow> Some (envelope msg)))"

text \<open>The registry that holds the two decoders above, each under its label.\<close>

definition sourceRegistry :: "Compiler \<Rightarrow> Env80 \<Rightarrow> Registry" where
  "sourceRegistry c env =
     \<lparr>by_label = (\<lambda>l. if l = ''15'' then [fstParser c]
                       else if l = ''80'' then [label80Parser env] else []),
      content_based = []\<rparr>"

section \<open>Concrete inputs\<close>

text \<open>
  A compiler that compiled and takes four capital letters for an \<open>ICAO\<close> token, a message
  with identifier 7, a match of the header format of label 80 and a match that holds one
  capture: the inputs on which the theorems below are run.
\<close>

definition exampleCompiler :: Compiler where
  "exampleCompiler = \<lparr>grokErr = False, ICAO = icaoLetters\<rparr>"

definition exampleMessage :: "string \<Rightarrow> string \<Rightarrow> Message" where
  "exampleMessage label text = \<lparr>ID = 7, Timestamp = [], Label = label, Text = text, Tail = []\<rparr>"

definition headerMatch :: Match where
  "headerMatch =
     \<lparr>FormatName = ''header_format'',
      Captures = [(''msg_type'', ''POS''), (''origin'', ''OMDB''), (''dest'', ''EGLL''),
                  (''tail'', ''.A6-EDA''), (''hdr1'', ''UAE81'')]\<rparr>"

definition fieldMatch :: "string \<Rightarrow> string \<Rightarrow> string \<Rightarrow> Match" where
  "fieldMatch name key v = \<lparr>FormatName = name, Captures = [(key, v)]\<rparr>"

section \<open>Digit strings and \<open>Atoi\<close>\<close>

lemma TrimSpace_id:
  assumes "spaceWidth s = 0" and "spaceWidthEnd s = 0"
  shows "TrimSpace s = s"
proof -
  have "TrimLeft s = s"
    using assms(1) by (subst TrimLeft.simps) simp
  moreover have "TrimRight s = s"
    using assms(2) by (subst TrimRight.simps) simp
  ultimately show ?thesis
    by (simp add: TrimSpace_def)
qed

lemma digitVal_range: "isDigit c \<Longrightarrow> 0 \<le> digitVal c \<and> digitVal c \<le> 9"
  by (auto simp: isDigit_def digitVal_def)

lemma decimal_Nil: "decimal [] = 0"
  by (simp add: decimal_def)

lemma decimal_snoc: "decimal (s @ [c]) = decimal s * 10 + digitVal c"
  by (simp add: decimal_def)

lemma decimal_range: "list_all isDigit s \<Longrightarrow> 0 \<le> decimal s \<and> decimal s < 10 ^ length s"
proof (induction s rule: rev_induct)
  case Nil
  then show ?case by (simp add: decimal_Nil)
next
  case (snoc c s)
  then have ih: "0 \<le> decimal s" "decimal s < 10 ^ length s" and c: "isDigit c"
    by simp_all
  from c have v: "0 \<le> digitVal c" "digitVal c \<le> 9"
    by (simp_all add: digitVal_range)
  from ih(2) have "decimal s + 1 \<le> 10 ^ length s" by simp
  then have "(decimal s + 1) * 10 \<le> 10 ^ length s * 10" by (rule mult_right_mono) simp
  with v ih show ?case
    by (simp add: decimal_snoc algebra_simps)
qed

lemma isDigit_not_sign: "isDigit c \<Longrightarrow> c \<noteq> CHR ''-'' \<and> c \<noteq> CHR ''+''"
  by (auto simp: isDigit_def)

lemma Atoi_digits:
  assumes "list_all isDigit s" and "s \<noteq> []" and "length s \<le> 18"
  shows "Atoi s = Some (decimal s)"
proof -
  obtain c cs where s: "s = c # cs"
    using assms(2) by (cases s) auto
  with assms(1) have c: "c \<noteq> CHR ''-''" "c \<noteq> CHR ''+''"
    by (simp_all add: isDigit_not_sign)
  have r: "0 \<le> decimal s" "decimal s < 10 ^ length s"
    using decimal_range [OF assms(1)] by simp_all
  have "(10::int) ^ length s \<le> 10 ^ 18"
    using assms(3) by (intro power_increasing) simp_all
  with r have "decimal s < 2 ^ 63" by simp
  with r(1) c assms(1) show ?thesis
    unfolding s Atoi_def by (simp add: Let_def)
qed

lemma minutes_below_60:
  assumes "0 \<le> h" and "h \<le> 99"
  shows "real_of_int w + real_of_int h / 100 < 60 \<longleftrightarrow> w < 60"
proof
  assume "real_of_int w + real_of_int h / 100 < 60"
  moreover have "0 \<le> real_of_int h / 100" using assms by simp
  ultimately have "real_of_int w < 60" by linarith
  then show "w < 60" by linarith
next
  assume "w < 60"
  then have "w \<le> 59" by simp
  then have "real_of_int w \<le> 59" by linarith
  moreover have "real_of_int h \<le> 99" using assms by linarith
  ultimately show "real_of_int w + real_of_int h / 100 < 60" by simp
qed

lemma digits_take: "list_all isDigit s \<Longrightarrow> list_all isDigit (take n s)"
  by (auto simp: list_all_iff dest: in_set_takeD)

lemma digits_drop: "list_all isDigit s \<Longrightarrow> list_all isDigit (drop n s)"
  by (auto simp: list_all_iff dest: in_set_dropD)

lemma Atoi_slice:
  assumes "list_all isDigit s" and "i + n \<le> length s" and "0 < n" and "n \<le> 18"
  shows "Atoi (take n (drop i s)) = Some (decimal (take n (drop i s)))"
proof (rule Atoi_digits)
  show "list_all isDigit (take n (drop i s))"
    using assms(1) by (simp add: digits_take digits_drop)
  have "length (take n (drop i s)) = n"
    using assms(2) by simp
  with assms(3,4) show "take n (drop i s) \<noteq> []" and "length (take n (drop i s)) \<le> 18"
    by auto
qed

lemma decimal_slice_range:
  assumes "list_all isDigit s" and "i + n \<le> length s"
  shows "0 \<le> decimal (take n (drop i s)) \<and> decimal (take n (drop i s)) < 10 ^ n"
proof -
  have "list_all isDigit (take n (drop i s))"
    using assms(1) by (simp add: digits_take digits_drop)
  from decimal_range [OF this] assms(2) show ?thesis by simp
qed

lemma decimal_take_Suc:
  assumes "n < length s"
  shows "decimal (take (Suc n) s) = decimal (take n s) * 10 + digitVal (s ! n)"
  using assms by (simp add: take_Suc_conv_app_nth decimal_snoc)

lemma decimal_take3_above:
  assumes "length s = 6" and "list_all isDigit s" and "90 < decimal (take 2 s)"
  shows "180 < decimal (take 3 s)"
proof -
  have "isDigit (s ! 2)"
    using assms(1,2) by (simp add: list_all_length)
  then have "0 \<le> digitVal (s ! 2)"
    by (simp add: digitVal_range)
  moreover have "decimal (take 3 s) = decimal (take 2 s) * 10 + digitVal (s ! 2)"
    using decimal_take_Suc [of 2 s] assms(1) by (simp add: eval_nat_numeral)
  ultimately show ?thesis
    using assms(3) by simp
qed

lemma resolve6_digits:
  assumes len: "length s = 6" and dig: "list_all isDigit s"
  shows "resolve6 s =
    (if decimal (take 2 (drop 2 s)) < 60
     then Resolved (decimal (take 2 s))
            (real_of_int (decimal (take 2 (drop 2 s))) + real_of_int (decimal (drop 4 s)) / 100)
     else if decimal (take 2 s) \<le> 90
     then Return (real_of_int (decimal (take 2 s)) + real_of_int (decimal (drop 2 s)) / 10000)
     else Resolved 0 0)"
proof -
  let ?deg2 = "decimal (take 2 s)" and ?mm = "decimal (take 2 (drop 2 s))"
  let ?tt = "decimal (drop 4 s)" and ?deg3 = "decimal (take 3 s)"
  have a2: "Atoi (take 2 s) = Some ?deg2"
    using Atoi_slice [OF dig, of 0 2] len by simp
  have am: "Atoi (take 2 (drop 2 s)) = Some ?mm"
    using Atoi_slice [OF dig, of 2 2] len by simp
  have at: "Atoi (drop 4 s) = Some ?tt"
    using Atoi_slice [OF dig, of 4 2] len by simp
  have a4: "Atoi (drop 2 s) = Some (decimal (drop 2 s))"
    using Atoi_slice [OF dig, of 2 4] len by simp
  have a3: "Atoi (take 3 s) = Some ?deg3"
    using Atoi_slice [OF dig, of 0 3] len by simp
  have am3: "Atoi (take 2 (drop 3 s)) = Some (decimal (take 2 (drop 3 s)))"
    using Atoi_slice [OF dig, of 3 2] len by simp
  have at3: "Atoi (drop 5 s) = Some (decimal (drop 5 s))"
    using Atoi_slice [OF dig, of 5 1] len by simp
  have r2: "0 \<le> ?deg2" "?deg2 < 100"
    using decimal_slice_range [OF dig, of 0 2] len by simp_all
  have rt: "0 \<le> ?tt" "?tt \<le> 99"
    using decimal_slice_range [OF dig, of 4 2] len by simp_all
  have "isDigit (s ! 2)"
    using dig len by (simp add: list_all_length)
  then have v: "0 \<le> digitVal (s ! 2)" "digitVal (s ! 2) \<le> 9"
    by (simp_all add: digitVal_range)
  have "?deg3 = ?deg2 * 10 + digitVal (s ! 2)"
    using decimal_take_Suc [of 2 s] len by (simp add: eval_nat_numeral)
  with v r2 have d3: "?deg2 = 0 \<Longrightarrow> ?deg3 \<le> 90" "90 < ?deg2 \<Longrightarrow> 180 < ?deg3"
    by simp_all
  have lt: "real_of_int ?mm + real_of_int ?tt / 100 < 60 \<longleftrightarrow> ?mm < 60"
    using rt by (rule minutes_below_60)
  show ?thesis
  proof (cases "?mm < 60")
    case True
    with r2 d3(1) lt show ?thesis
      by (auto simp: resolve6_def tryDDMMTT_def tryDDDMMD_def a2 am at a3 am3 at3 len)
  next
    case False
    with r2 d3(2) lt show ?thesis
      by (auto simp: resolve6_def tryDDMMTT_def tryDDDMMD_def a2 am at a4 a3 am3 at3 len)
  qed
qed

section \<open>Coordinates of FST messages\<close>

text \<open>
  C8. A coordinate of seven digits is read as decimal degrees: when the first three digits
  are at most 180, \<open>parseCoord\<close> returns them plus the last four digits divided by 10000,
  and it returns 0 when the first three digits are above 180.
\<close>

theorem parseCoord_seven_digits:
  assumes "length s = 7" and "list_all isDigit s"
  shows "parseCoord s =
    (if decimal (take 3 s) \<le> 180
     then real_of_int (decimal (take 3 s)) + real_of_int (decimal (drop 3 s)) / 10000
     else 0)"
proof -
  have d3: "Atoi (take 3 s) = Some (decimal (take 3 s))"
    using Atoi_slice [OF assms(2), of 0 3] assms(1) by simp
  have d4: "Atoi (drop 3 s) = Some (decimal (drop 3 s))"
    using Atoi_slice [OF assms(2), of 3 4] assms(1) by simp
  show ?thesis
    using assms(1) by (simp add: parseCoord_def d3 d4)
qed

theorem parseCoord_seven_digits_witness:
  "length ''0249275'' = 7 \<and> list_all isDigit ''0249275'' \<and>
   parseCoord ''0249275'' = 24 + 9275 / 10000 \<and> parseCoord ''1810000'' = 0"
  using parseCoord_seven_digits [of "''0249275''"] parseCoord_seven_digits [of "''1810000''"]
  by (simp add: isDigit_def decimal_def digitVal_def)

text \<open>
  C10. A coordinate of six digits whose degrees are resolved to zero decodes to 0: the
  variable \<open>deg\<close> of the source is both the degrees and the sign that nothing was read. In
  particular a string that starts with 00 and has a minute field below 60 is resolved to
  zero degrees with its minutes, and \<open>parseCoord\<close> returns 0 instead of those minutes.
\<close>

theorem parseCoord_zero_degrees:
  assumes "length s = 6" and "list_all isDigit s"
  shows "(resolve6 s = Resolved 0 mn \<longrightarrow> parseCoord s = 0) \<and>
         (take 2 s = ''00'' \<and> decimal (take 2 (drop 2 s)) < 60 \<longrightarrow>
            resolve6 s =
              Resolved 0 (real_of_int (decimal (take 2 (drop 2 s))) +
                          real_of_int (decimal (drop 4 s)) / 100) \<and>
            parseCoord s = 0)"
proof -
  have "decimal ''00'' = 0"
    by (simp add: decimal_def digitVal_def)
  with assms show ?thesis
    by (simp add: parseCoord_def resolve6_digits)
qed

theorem parseCoord_zero_degrees_witness:
  "length ''001234'' = 6 \<and> list_all isDigit ''001234'' \<and>
   resolve6 ''001234'' = Resolved 0 (12 + 34 / 100) \<and> parseCoord ''001234'' = 0"
  using parseCoord_zero_degrees [of "''001234''" "12 + 34 / 100"]
  by (simp add: isDigit_def decimal_def digitVal_def)

text \<open>
  C1, as amended. For a coordinate of six digits, unless its first two digits are 00 and
  its minute field is below 60: \<open>parseCoord\<close> reads it as DDMMTT when the minute field is
  below 60 and returns degrees + (minutes * 100 + hundredths) / 6000; when the minute
  field is 60 or more and the two-digit degrees are at most 90 it reads the string as
  DD.DDDD and returns degrees + last four digits / 10000; in what remains (minute field
  60 or more, degrees above 90) it returns 0. The reading DDDMMD is tried only after
  DDMMTT left no degrees; the first three digits are then above 180, the largest value
  that DDDMMD admits, so on six digits it is never taken.
\<close>

theorem parseCoord_six_digits:
  assumes "length s = 6" and "list_all isDigit s"
    and "\<not> (decimal (take 2 s) = 0 \<and> decimal (take 2 (drop 2 s)) < 60)"
  shows "parseCoord s =
    (if decimal (take 2 (drop 2 s)) < 60
     then real_of_int (decimal (take 2 s)) +
          real_of_int (decimal (take 2 (drop 2 s)) * 100 + decimal (drop 4 s)) / 6000
     else if decimal (take 2 s) \<le> 90
     then real_of_int (decimal (take 2 s)) + real_of_int (decimal (drop 2 s)) / 10000
     else 0) \<and>
    (90 < decimal (take 2 s) \<longrightarrow> 180 < decimal (take 3 s))"
proof -
  have rt: "0 \<le> decimal (drop 4 s)" "decimal (drop 4 s) \<le> 99"
    using decimal_slice_range [OF assms(2), of 4 2] assms(1) by simp_all
  have lt: "real_of_int (decimal (take 2 (drop 2 s))) + real_of_int (decimal (drop 4 s)) / 100 < 60
      \<longleftrightarrow> decimal (take 2 (drop 2 s)) < 60"
    using rt by (rule minutes_below_60)
  have "parseCoord s =
    (if decimal (take 2 (drop 2 s)) < 60
     then real_of_int (decimal (take 2 s)) +
          real_of_int (decimal (take 2 (drop 2 s)) * 100 + decimal (drop 4 s)) / 6000
     else if decimal (take 2 s) \<le> 90
     then real_of_int (decimal (take 2 s)) + real_of_int (decimal (drop 2 s)) / 10000
     else 0)"
    using assms lt by (auto simp: parseCoord_def resolve6_digits field_simps)
  with decimal_take3_above [OF assms(1,2)] show ?thesis
    by blast
qed

theorem parseCoord_six_digits_witness:
  "length ''452140'' = 6 \<and> list_all isDigit ''452140'' \<and>
   parseCoord ''452140'' = 45 + 2140 / 6000 \<and> parseCoord ''467315'' = 46 + 7315 / 10000 \<and>
   parseCoord ''957000'' = 0"
  using parseCoord_six_digits [of "''452140''"] parseCoord_six_digits [of "''467315''"]
    parseCoord_six_digits [of "''957000''"]
  by (simp add: isDigit_def decimal_def digitVal_def)

text \<open>
  C1 as stated does not hold. In 120305 the first three digits are 120, above 90 and at
  most 180, and the minute field 03 is below 60: the claim reads it as DDDMMD, 120 degrees
  and 30.5 minutes, and the decoder as DDMMTT, 12 degrees and 3.05 minutes. In 001234 the
  reading DDMMTT gives 12.34 minutes, and the decoder returns 0.
\<close>

theorem parseCoord_six_digits_counterexample:
  "parseCoord ''120305'' = 12 + 305 / 6000 \<and>
   parseCoord ''120305'' \<noteq> 120 + (30 + 5 / 10) / 60 \<and>
   parseCoord ''001234'' = 0 \<and>
   parseCoord ''001234'' \<noteq> 0 + (12 * 100 + 34) / 6000"
  by (simp add: parseCoord_def resolve6_def tryDDMMTT_def tryDDDMMD_def Atoi_def decimal_def
      digitVal_def isDigit_def)

section \<open>The speed token of FST messages\<close>

lemma Atoi_unsigned:
  assumes "Atoi s = Some n" and "s = c # cs" and "c \<noteq> CHR ''-''" and "c \<noteq> CHR ''+''"
  shows "list_all isDigit s \<and> n = decimal s"
  using assms by (auto simp: Atoi_def Let_def split: if_splits)

lemma Atoi_signed:
  assumes "Atoi s = Some n" and "s = c # cs" and "c = CHR ''-'' \<or> c = CHR ''+''"
  shows "list_all isDigit cs \<and> cs \<noteq> [] \<and> \<bar>n\<bar> = decimal cs"
proof -
  from assms have "list_all isDigit cs" and "cs \<noteq> []"
    by (auto simp: Atoi_def Let_def split: if_splits)
  moreover from this have "0 \<le> decimal cs"
    by (simp add: decimal_range)
  moreover from assms have "n = decimal cs \<or> n = - decimal cs"
    by (auto simp: Atoi_def Let_def split: if_splits)
  ultimately show ?thesis by auto
qed

lemma Atoi_sign_digits:
  assumes "list_all isDigit cs" and "cs \<noteq> []" and "length cs \<le> 18"
    and "c = CHR ''-'' \<or> c = CHR ''+''"
  shows "\<exists>k. Atoi (c # cs) = Some k"
proof -
  have r: "0 \<le> decimal cs" "decimal cs < 10 ^ length cs"
    using decimal_range [OF assms(1)] by simp_all
  have "(10::int) ^ length cs \<le> 10 ^ 18"
    using assms(3) by (intro power_increasing) simp_all
  with r have "decimal cs < 2 ^ 63" by simp
  with r(1) assms show ?thesis
    by (auto simp: Atoi_def Let_def)
qed

lemma Atoi_take3:
  assumes "Atoi s = Some n" and "3 \<le> length s"
  shows "\<exists>k. Atoi (take 3 s) = Some k"
proof -
  obtain c cs where s: "s = c # cs"
    using assms(2) by (cases s) auto
  show ?thesis
  proof (cases "c = CHR ''-'' \<or> c = CHR ''+''")
    case True
    from Atoi_signed [OF assms(1) s True] have d: "list_all isDigit cs"
      by simp
    have t: "take 3 s = c # take 2 cs"
      by (simp add: s eval_nat_numeral)
    have "take 2 cs \<noteq> []"
      using assms(2) s by auto
    with d True show ?thesis
      unfolding t by (intro Atoi_sign_digits) (simp_all add: digits_take)
  next
    case False
    with Atoi_unsigned [OF assms(1) s] have "list_all isDigit s"
      by simp
    then have "Atoi (take 3 s) = Some (decimal (take 3 s))"
      using assms(2) by (intro Atoi_digits) (auto simp: digits_take)
    then show ?thesis ..
  qed
qed

lemma Atoi_seven_large:
  assumes "Atoi s = Some n" and "length s = 7" and "1000000 < n"
  shows "list_all isDigit s"
proof -
  obtain c cs where s: "s = c # cs"
    using assms(2) by (cases s) auto
  show ?thesis
  proof (cases "c = CHR ''-'' \<or> c = CHR ''+''")
    case True
    from Atoi_signed [OF assms(1) s True]
    have d: "list_all isDigit cs" and n: "\<bar>n\<bar> = decimal cs"
      by simp_all
    have "length cs = 6" using assms(2) s by simp
    with decimal_range [OF d] have "decimal cs < 1000000" by simp
    with n assms(3) show ?thesis by simp
  next
    case False
    with Atoi_unsigned [OF assms(1) s] show ?thesis by simp
  qed
qed

lemma parseWind_speed:
  "IAS (parseWind w r) = IAS r \<and> GroundSpeed (parseWind w r) = GroundSpeed r \<and>
   SpeedUnit (parseWind w r) = SpeedUnit r \<and> SpeedType (parseWind w r) = SpeedType r"
  by (simp add: parseWind_def windSSDDD_def windSSSDDD_def split: option.splits)

lemma scanTemperature_speed:
  "IAS (scanTemperature ps r) = IAS r \<and> GroundSpeed (scanTemperature ps r) = GroundSpeed r \<and>
   SpeedUnit (scanTemperature ps r) = SpeedUnit r \<and> SpeedType (scanTemperature ps r) = SpeedType r"
  by (induction ps arbitrary: r) (auto simp: parseWind_speed Let_def split: option.splits list.splits)

lemma fieldFlightLevel_speed:
  "IAS (fieldFlightLevel parts r) = IAS r \<and>
   GroundSpeed (fieldFlightLevel parts r) = GroundSpeed r \<and>
   SpeedUnit (fieldFlightLevel parts r) = SpeedUnit r \<and>
   SpeedType (fieldFlightLevel parts r) = SpeedType r"
  by (simp add: fieldFlightLevel_def split: option.splits)

lemma parseFields_speed_fields:
  assumes "parts = Fields data" and "2 \<le> length parts"
    and "Atoi (parts ! 1) = Some speed" and "0 < speed"
  shows "IAS (parseFields data r) = IAS (classifySpeed parts (parts ! 1) speed (fieldFlightLevel parts r))"
    and "GroundSpeed (parseFields data r) = GroundSpeed (classifySpeed parts (parts ! 1) speed (fieldFlightLevel parts r))"
    and "SpeedUnit (parseFields data r) = SpeedUnit (classifySpeed parts (parts ! 1) speed (fieldFlightLevel parts r))"
    and "SpeedType (parseFields data r) = SpeedType (classifySpeed parts (parts ! 1) speed (fieldFlightLevel parts r))"
  using assms by (simp_all add: parseFields_def Let_def scanTemperature_speed fieldSpeed_def)

lemmas eval_simps = parseFields_def Fields_def asciiSpace_def fieldFlightLevel_def fieldSpeed_def
  classifySpeed_def nextSpeedField_def tempPattern_def parseWind_def windSSDDD_def windSSSDDD_def
  Atoi_def decimal_def digitVal_def isDigit_def wrap64_def emptyResult_def Let_def

text \<open>
  C2, as amended. Let the second field after the coordinates be an integer \<open>speed\<close> above
  zero, written \<open>speedStr\<close>. A value of seven characters above 1000000 is split into the
  indicated airspeed (the first three digits) and the ground speed in km/h (the last
  four), type IAS+KMH. Any other value above 1000 written with more than four characters
  gives the indicated airspeed only, from its first three characters, type IAS, and no
  ground speed. A value from 700 to 1000 is the ground speed in km/h, one from 350 to 699
  the ground speed in knots. A value from 100 to 349 is the indicated airspeed; when the
  next field is an integer from 100 to 999 it is the ground speed, in km/h from 700 on
  (type IAS+KMH) and in knots below (type IAS+GS). Every other value (below 100, or above
  1000 with at most four characters) is the ground speed in knots.
\<close>

theorem parseFields_speed_token:
  assumes parts: "parts = Fields data" and len: "2 \<le> length parts"
    and tok: "speedStr = parts ! 1"
    and atoi: "Atoi speedStr = Some speed" and pos: "0 < speed"
  shows
    "(length speedStr = 7 \<and> 1000000 < speed \<longrightarrow>
        Atoi (take 3 speedStr) = Some (IAS (parseFields data r)) \<and>
        Atoi (drop 3 speedStr) = Some (GroundSpeed (parseFields data r)) \<and>
        SpeedUnit (parseFields data r) = ''kmh'' \<and>
        SpeedType (parseFields data r) = ''IAS+KMH'') \<and>
     (\<not> (length speedStr = 7 \<and> 1000000 < speed) \<and> 1000 < speed \<and> 4 < length speedStr \<longrightarrow>
        Atoi (take 3 speedStr) = Some (IAS (parseFields data r)) \<and>
        SpeedType (parseFields data r) = ''IAS'' \<and>
        GroundSpeed (parseFields data r) = GroundSpeed r \<and>
        SpeedUnit (parseFields data r) = SpeedUnit r) \<and>
     (700 \<le> speed \<and> speed \<le> 1000 \<longrightarrow>
        GroundSpeed (parseFields data r) = speed \<and> SpeedUnit (parseFields data r) = ''kmh'' \<and>
        SpeedType (parseFields data r) = ''KMH'' \<and> IAS (parseFields data r) = IAS r) \<and>
     (350 \<le> speed \<and> speed < 700 \<longrightarrow>
        GroundSpeed (parseFields data r) = speed \<and> SpeedUnit (parseFields data r) = ''knots'' \<and>
        SpeedType (parseFields data r) = ''GS'' \<and> IAS (parseFields data r) = IAS r) \<and>
     (100 \<le> speed \<and> speed < 350 \<longrightarrow>
        IAS (parseFields data r) = speed \<and>
        (3 \<le> length parts \<and> Atoi (parts ! 2) = Some n \<and> 700 \<le> n \<and> n < 1000 \<longrightarrow>
           GroundSpeed (parseFields data r) = n \<and> SpeedUnit (parseFields data r) = ''kmh'' \<and>
           SpeedType (parseFields data r) = ''IAS+KMH'') \<and>
        (3 \<le> length parts \<and> Atoi (parts ! 2) = Some n \<and> 100 \<le> n \<and> n < 700 \<longrightarrow>
           GroundSpeed (parseFields data r) = n \<and> SpeedUnit (parseFields data r) = ''knots'' \<and>
           SpeedType (parseFields data r) = ''IAS+GS'') \<and>
        (\<not> (3 \<le> length parts \<and> (\<exists>k. Atoi (parts ! 2) = Some k \<and> 100 \<le> k \<and> k < 1000)) \<longrightarrow>
           GroundSpeed (parseFields data r) = GroundSpeed r \<and>
           SpeedUnit (parseFields data r) = SpeedUnit r \<and>
           SpeedType (parseFields data r) = ''IAS'')) \<and>
     (speed < 100 \<or> 1000 < speed \<and> length speedStr \<le> 4 \<longrightarrow>
        GroundSpeed (parseFields data r) = speed \<and> SpeedUnit (parseFields data r) = ''knots'' \<and>
        SpeedType (parseFields data r) = ''GS'' \<and> IAS (parseFields data r) = IAS r)"
  (is "?c1 \<and> ?c2 \<and> ?c3 \<and> ?c4 \<and> ?c5 \<and> ?c6")
proof -
  note f = parseFields_speed_fields [OF parts len atoi [unfolded tok] pos, of r, folded tok]
  note fl = fieldFlightLevel_speed [of parts r]
  have c1: ?c1
  proof
    assume a: "length speedStr = 7 \<and> 1000000 < speed"
    then have d: "list_all isDigit speedStr"
      using Atoi_seven_large [OF atoi] by simp
    have a3: "Atoi (take 3 speedStr) = Some (decimal (take 3 speedStr))"
      using Atoi_slice [OF d, of 0 3] a by simp
    have a4: "Atoi (drop 3 speedStr) = Some (decimal (drop 3 speedStr))"
      using Atoi_slice [OF d, of 3 4] a by simp
    from a show "Atoi (take 3 speedStr) = Some (IAS (parseFields data r)) \<and>
        Atoi (drop 3 speedStr) = Some (GroundSpeed (parseFields data r)) \<and>
        SpeedUnit (parseFields data r) = ''kmh'' \<and>
        SpeedType (parseFields data r) = ''IAS+KMH''"
      by (simp add: f classifySpeed_def a3 a4)
  qed
  have c2: ?c2
  proof
    assume a: "\<not> (length speedStr = 7 \<and> 1000000 < speed) \<and> 1000 < speed \<and>
      4 < length speedStr"
    then obtain k where k: "Atoi (take 3 speedStr) = Some k"
      using Atoi_take3 [OF atoi] by auto
    from a show "Atoi (take 3 speedStr) = Some (IAS (parseFields data r)) \<and>
        SpeedType (parseFields data r) = ''IAS'' \<and>
        GroundSpeed (parseFields data r) = GroundSpeed r \<and>
        SpeedUnit (parseFields data r) = SpeedUnit r"
      by (auto simp: f classifySpeed_def k fl)
  qed
  have c3: ?c3
    by (simp add: f classifySpeed_def fl)
  have c4: ?c4
    by (simp add: f classifySpeed_def fl)
  have c5: ?c5
    by (auto simp: f classifySpeed_def nextSpeedField_def fl split: option.splits)
  have c6: ?c6
    using pos by (auto simp: f classifySpeed_def fl)
  from c1 c2 c3 c4 c5 c6 show ?thesis
    by blast
qed

theorem parseFields_speed_token_witness:
  "GroundSpeed (parseFields ''330 854 242 M54C 62354'' emptyResult) = 854 \<and>
   SpeedUnit (parseFields ''330 854 242 M54C 62354'' emptyResult) = ''kmh'' \<and>
   SpeedType (parseFields ''330 854 242 M54C 62354'' emptyResult) = ''KMH'' \<and>
   IAS (parseFields ''360 2001084 M52C 54314'' emptyResult) = 200 \<and>
   GroundSpeed (parseFields ''360 2001084 M52C 54314'' emptyResult) = 1084 \<and>
   SpeedType (parseFields ''360 2001084 M52C 54314'' emptyResult) = ''IAS+KMH'' \<and>
   IAS (parseFields ''400 192 312 M49C 63286'' emptyResult) = 192 \<and>
   GroundSpeed (parseFields ''400 192 312 M49C 63286'' emptyResult) = 312 \<and>
   SpeedUnit (parseFields ''400 192 312 M49C 63286'' emptyResult) = ''knots'' \<and>
   SpeedType (parseFields ''400 192 312 M49C 63286'' emptyResult) = ''IAS+GS''"
proof -
  have f1: "[''330'', ''854'', ''242'', ''M54C'', ''62354''] = Fields ''330 854 242 M54C 62354''"
    and f2: "[''360'', ''2001084'', ''M52C'', ''54314''] = Fields ''360 2001084 M52C 54314''"
    and f3: "[''400'', ''192'', ''312'', ''M49C'', ''63286''] = Fields ''400 192 312 M49C 63286''"
    by (simp_all add: Fields_def asciiSpace_def)
  have a: "Atoi ''854'' = Some 854" "Atoi ''2001084'' = Some 2001084" "Atoi ''192'' = Some 192"
    "Atoi ''312'' = Some 312" "Atoi ''200'' = Some 200" "Atoi ''1084'' = Some 1084"
    by (simp_all add: Atoi_def decimal_def digitVal_def isDigit_def)
  have t1: "GroundSpeed (parseFields ''330 854 242 M54C 62354'' emptyResult) = 854 \<and>
      SpeedUnit (parseFields ''330 854 242 M54C 62354'' emptyResult) = ''kmh'' \<and>
      SpeedType (parseFields ''330 854 242 M54C 62354'' emptyResult) = ''KMH''"
    using parseFields_speed_token [OF f1, of "''854''" 854 emptyResult 242] a by simp
  have t2: "IAS (parseFields ''360 2001084 M52C 54314'' emptyResult) = 200 \<and>
      GroundSpeed (parseFields ''360 2001084 M52C 54314'' emptyResult) = 1084 \<and>
      SpeedType (parseFields ''360 2001084 M52C 54314'' emptyResult) = ''IAS+KMH''"
    using parseFields_speed_token [OF f2, of "''2001084''" 2001084 emptyResult 0] a by simp
  have t3: "IAS (parseFields ''400 192 312 M49C 63286'' emptyResult) = 192 \<and>
      GroundSpeed (parseFields ''400 192 312 M49C 63286'' emptyResult) = 312 \<and>
      SpeedUnit (parseFields ''400 192 312 M49C 63286'' emptyResult) = ''knots'' \<and>
      SpeedType (parseFields ''400 192 312 M49C 63286'' emptyResult) = ''IAS+GS''"
    using parseFields_speed_token [OF f3, of "''192''" 192 emptyResult 312] a by simp
  from t1 t2 t3 show ?thesis by blast
qed

text \<open>
  C2 as stated does not hold: the token 12345 is a positive value outside the four ranges
  and not a value of seven digits, so the claim makes it the ground speed in knots; the
  decoder takes its first three digits as indicated airspeed and sets no ground speed.
\<close>

theorem parseFields_speed_token_counterexample:
  "SpeedType (parseFields ''330 12345 M54C 62354'' emptyResult) = ''IAS'' \<and>
   IAS (parseFields ''330 12345 M54C 62354'' emptyResult) = 123 \<and>
   GroundSpeed (parseFields ''330 12345 M54C 62354'' emptyResult) \<noteq> 12345 \<and>
   SpeedUnit (parseFields ''330 12345 M54C 62354'' emptyResult) \<noteq> ''knots''"
  by (simp add: eval_simps)

section \<open>The FST parser\<close>

lemmas parse15_simps = Parse15_def TrimSpace_id spaceWidthEnd_def stripPrefix_def HasPrefix_def
  compilerParse_def Formats_def matchAt_def fromMatch_def capture_def parseCoord_def
  resolve6_def tryDDMMTT_def tryDDDMMD_def

text \<open>
  C4. With a compiler that compiled and takes EGLL and WSSS for \<open>ICAO\<close> tokens, the message
  text of the spec's second scenario decodes to origin EGLL, destination WSSS, latitude
  45 + 21.40 / 60 (within 0.0001 of 45.3567), longitude 24.9275, flight level 330, ground
  speed 854 in km/h with speed type KMH, temperature -54, wind speed 62 and wind
  direction 354.
\<close>

theorem Parse15_example:
  assumes "\<not> grokErr c" and "ICAO c ''EGLL''" and "ICAO c ''WSSS''"
    and "Text msg = ''FST01EGLLWSSSN452140E0249275330 854 242 M54C 6235410711950911600009590004''"
  shows "Parse15 c msg =
     Some \<lparr>MsgID = ID msg, Timestamp_r = Timestamp msg, Tail_r = Tail msg, Sequence = ''01'',
           Origin = ''EGLL'', Destination = ''WSSS'', Latitude = 45 + 2140 / 6000,
           Longitude = 24 + 9275 / 10000, FlightLevel = 330, GroundSpeed = 854,
           SpeedUnit = ''kmh'', IAS = 0, TAS = 0, SpeedType = ''KMH'', Temperature = - 54,
           WindSpeed = 62, WindDirection = 354,
           RawData = ''330 854 242 M54C 6235410711950911600009590004''\<rparr> \<and>
     \<bar>Latitude (the (Parse15 c msg)) - 45.3567\<bar> < 1 / 10000 \<and>
     \<bar>Longitude (the (Parse15 c msg)) - 24.9275\<bar> < 1 / 10000"
proof -
  have "Parse15 c msg =
     Some \<lparr>MsgID = ID msg, Timestamp_r = Timestamp msg, Tail_r = Tail msg, Sequence = ''01'',
           Origin = ''EGLL'', Destination = ''WSSS'', Latitude = 45 + 2140 / 6000,
           Longitude = 24 + 9275 / 10000, FlightLevel = 330, GroundSpeed = 854,
           SpeedUnit = ''kmh'', IAS = 0, TAS = 0, SpeedType = ''KMH'', Temperature = - 54,
           WindSpeed = 62, WindDirection = 354,
           RawData = ''330 854 242 M54C 6235410711950911600009590004''\<rparr>"
    using assms by (simp add: parse15_simps eval_simps)
  then show ?thesis by simp
qed

theorem Parse15_example_witness:
  "map_option Origin (Parse15 exampleCompiler (exampleMessage ''15''
     ''FST01EGLLWSSSN452140E0249275330 854 242 M54C 6235410711950911600009590004'')) = Some ''EGLL'' \<and>
   map_option GroundSpeed (Parse15 exampleCompiler (exampleMessage ''15''
     ''FST01EGLLWSSSN452140E0249275330 854 242 M54C 6235410711950911600009590004'')) = Some 854 \<and>
   map_option WindDirection (Parse15 exampleCompiler (exampleMessage ''15''
     ''FST01EGLLWSSSN452140E0249275330 854 242 M54C 6235410711950911600009590004'')) = Some 354"
  using Parse15_example [of exampleCompiler "exampleMessage ''15''
        ''FST01EGLLWSSSN452140E0249275330 854 242 M54C 6235410711950911600009590004''"]
  by (simp add: exampleCompiler_def exampleMessage_def icaoLetters_def isUpper_def)

lemma parseWind_id: "MsgID (parseWind w r) = MsgID r"
  by (simp add: parseWind_def windSSDDD_def windSSSDDD_def split: option.splits)

lemma scanTemperature_id: "MsgID (scanTemperature ps r) = MsgID r"
  by (induction ps arbitrary: r)
    (auto simp: parseWind_id Let_def split: option.splits list.splits)

lemma parseFields_id: "MsgID (parseFields data r) = MsgID r"
  by (simp add: parseFields_def Let_def scanTemperature_id fieldSpeed_def classifySpeed_def
      nextSpeedField_def fieldFlightLevel_def split: option.splits)

lemma fromMatch_id: "MsgID (fromMatch msg m) = ID msg"
  by (simp add: fromMatch_def Let_def parseFields_id)

lemma Parse15_id: "Parse15 c msg = Some r \<Longrightarrow> MsgID r = ID msg"
  by (auto simp: Parse15_def Let_def fromMatch_id split: if_splits option.splits)

lemma parseWind_dir:
  "0 \<le> WindDirection r \<and> WindDirection r \<le> 360 \<Longrightarrow>
   0 \<le> WindDirection (parseWind w r) \<and> WindDirection (parseWind w r) \<le> 360"
  by (simp add: parseWind_def windSSDDD_def windSSSDDD_def split: option.splits)

lemma scanTemperature_dir:
  "0 \<le> WindDirection r \<and> WindDirection r \<le> 360 \<Longrightarrow>
   0 \<le> WindDirection (scanTemperature ps r) \<and> WindDirection (scanTemperature ps r) \<le> 360"
proof (induction ps arbitrary: r)
  case Nil
  then show ?case by simp
next
  case (Cons p ps)
  show ?case
  proof (cases "tempPattern p")
    case None
    with Cons show ?thesis by simp
  next
    case (Some sd)
    obtain sign ds where sd: "sd = (sign, ds)" by (cases sd)
    show ?thesis
    proof (cases "Atoi ds")
      case None
      with Some sd Cons show ?thesis by simp
    next
      case (Some temp)
      have "0 \<le> WindDirection (parseWind w (r\<lparr>Temperature := t\<rparr>)) \<and>
            WindDirection (parseWind w (r\<lparr>Temperature := t\<rparr>)) \<le> 360" for w t
        using Cons.prems by (intro parseWind_dir) simp
      with Some \<open>tempPattern p = Some sd\<close> sd Cons.prems show ?thesis
        by (simp add: Let_def split: list.splits)
    qed
  qed
qed

lemma parseFields_dir:
  assumes "0 \<le> WindDirection r \<and> WindDirection r \<le> 360"
  shows "0 \<le> WindDirection (parseFields data r) \<and> WindDirection (parseFields data r) \<le> 360"
proof -
  have "WindDirection (fieldSpeed parts (fieldFlightLevel parts r)) = WindDirection r" for parts
    by (simp add: fieldSpeed_def classifySpeed_def nextSpeedField_def fieldFlightLevel_def
        split: option.splits)
  with assms show ?thesis
    unfolding parseFields_def Let_def by (intro scanTemperature_dir) simp
qed

lemma fromMatch_dir:
  "0 \<le> WindDirection (fromMatch msg m) \<and> WindDirection (fromMatch msg m) \<le> 360"
  by (simp add: fromMatch_def Let_def parseFields_dir)

lemma Parse15_dir:
  "Parse15 c msg = Some r \<Longrightarrow> 0 \<le> WindDirection r \<and> WindDirection r \<le> 360"
  by (auto simp: Parse15_def Let_def fromMatch_dir split: if_splits option.splits)

lemma Parse15_wind360:
  "Parse15 exampleCompiler
     (exampleMessage ''15'' ''FST01EGLLWSSSN452140E0249275330 854 242 M54C 62360'') =
   Some \<lparr>MsgID = 7, Timestamp_r = [], Tail_r = [], Sequence = ''01'',
         Origin = ''EGLL'', Destination = ''WSSS'', Latitude = 45 + 2140 / 6000,
         Longitude = 24 + 9275 / 10000, FlightLevel = 330, GroundSpeed = 854,
         SpeedUnit = ''kmh'', IAS = 0, TAS = 0, SpeedType = ''KMH'', Temperature = - 54,
         WindSpeed = 62, WindDirection = 360, RawData = ''330 854 242 M54C 62360''\<rparr>"
  by (simp add: parse15_simps eval_simps exampleCompiler_def exampleMessage_def icaoLetters_def
      isUpper_def)

section \<open>The decoder of label 80\<close>

lemma applyMatch_found:
  "snd (applyMatch env m st) \<longleftrightarrow>
     snd st \<or> FormatName m = ''header_format'' \<or> FormatName m = ''alt_format''"
  by (simp add: applyMatch_def Let_def split: option.splits)

lemma applyMatches_found:
  "snd (applyMatches env ms st) \<longleftrightarrow>
     snd st \<or> (\<exists>m \<in> set ms. FormatName m = ''header_format'' \<or> FormatName m = ''alt_format'')"
  by (induction ms arbitrary: st) (auto simp: applyMatch_found)

text \<open>
  C3. The decoder of label 80 returns a result exactly if the text is not empty, the
  formats compiled, and one of the matches found in the trimmed text is of the header
  format or of the alternative flight header; matches of the other formats do not count.
\<close>

theorem Parse80_header:
  "Parse80 env msg \<noteq> None \<longleftrightarrow>
     Text msg \<noteq> [] \<and> \<not> grokErr80 env \<and>
     (\<exists>m \<in> set (ParseAll env (TrimSpace (Text msg))).
        FormatName m = ''header_format'' \<or> FormatName m = ''alt_format'')"
  by (simp add: Parse80_def Let_def applyMatches_found)

lemmas parse80_simps = Parse80_def fixedEnv_def newResult80_def applyMatch_def caseHeader_def
  caseAlt_def caseAltitude_def caseWind_def resolveNames_def capture_def TrimSpace_id
  spaceWidthEnd_def asciiSpace_def TrimPrefix_def HasPrefix_def isLikelyFlight_def
  flightPattern_def digitsPattern_def Contains_def isUpper_def isDigit_def Atoi_def decimal_def
  digitVal_def knotsToKmh_def wrap64_def go_div_def go_mod_def headerMatch_def fieldMatch_def
  exampleMessage_def Let_def

theorem Parse80_header_witness:
  "Parse80 (fixedEnv [headerMatch, fieldMatch ''altitude'' ''altitude'' ''350'']) (exampleMessage ''80'' ''x'') \<noteq> None \<and>
   Parse80 (fixedEnv [fieldMatch ''altitude'' ''altitude'' ''350'']) (exampleMessage ''80'' ''x'') = None"
  using Parse80_header [of "fixedEnv [headerMatch, fieldMatch ''altitude'' ''altitude'' ''350'']" "exampleMessage ''80'' ''x''"]
    Parse80_header [of "fixedEnv [fieldMatch ''altitude'' ''altitude'' ''350'']" "exampleMessage ''80'' ''x''"]
  by (simp add: fixedEnv_def exampleMessage_def headerMatch_def fieldMatch_def)

lemma resolveNames_fields:
  "MsgID80 (resolveNames env r) = MsgID80 r \<and> WindDir (resolveNames env r) = WindDir r \<and>
   WindSpeedKts (resolveNames env r) = WindSpeedKts r \<and>
   WindSpeedKmh (resolveNames env r) = WindSpeedKmh r \<and>
   Altitude (resolveNames env r) = Altitude r"
  by (simp add: resolveNames_def Let_def)

lemma applyMatch_id: "MsgID80 (fst (applyMatch env m st)) = MsgID80 (fst st)"
  by (simp add: applyMatch_def Let_def caseHeader_def caseAlt_def caseAltitude_def caseWind_def
      resolveNames_fields split: option.splits)

lemma applyMatches_id: "MsgID80 (fst (applyMatches env ms st)) = MsgID80 (fst st)"
  by (induction ms arbitrary: st) (simp_all add: applyMatch_id)

lemma Parse80_id: "Parse80 env msg = Some r \<Longrightarrow> MsgID80 r = ID msg"
  by (auto simp: Parse80_def Let_def applyMatches_id newResult80_def split: if_splits)

lemma wrap64_id: "- (2 ^ 63) \<le> n \<Longrightarrow> n < 2 ^ 63 \<Longrightarrow> wrap64 n = n"
  by (simp add: wrap64_def)

lemma go_mod_360_range:
  "- 360 < go_mod d 360 \<and> go_mod d 360 < 360"
proof (cases "d < 0")
  case True
  then have "go_mod d 360 = - ((- d) mod 360)"
    by (simp add: go_mod_def go_div_def minus_mult_div_eq_mod [symmetric] algebra_simps)
  moreover have "0 \<le> (- d) mod 360" "(- d) mod 360 < 360"
    by simp_all
  ultimately show ?thesis by linarith
next
  case False
  then have "go_mod d 360 = d mod 360"
    by (simp add: go_mod_def go_div_def minus_mult_div_eq_mod [symmetric] algebra_simps)
  moreover have "0 \<le> d mod 360" "d mod 360 < 360"
    by simp_all
  ultimately show ?thesis by linarith
qed

lemma caseWind_dir:
  assumes "0 \<le> WindDir r \<and> WindDir r < 360"
  shows "0 \<le> WindDir (caseWind m r) \<and> WindDir (caseWind m r) < 360"
proof (cases "Atoi (capture m ''wdir'')")
  case None
  with assms show ?thesis
    by (simp add: caseWind_def split: option.splits)
next
  case (Some d0)
  from go_mod_360_range [of d0]
  have "wrap64 (go_mod d0 360 + 360) = go_mod d0 360 + 360"
    by (intro wrap64_id) simp_all
  with go_mod_360_range [of d0] Some show ?thesis
    by (simp add: caseWind_def Let_def split: option.splits)
qed

lemma applyMatch_dir:
  assumes "0 \<le> WindDir (fst st) \<and> WindDir (fst st) < 360"
  shows "0 \<le> WindDir (fst (applyMatch env m st)) \<and> WindDir (fst (applyMatch env m st)) < 360"
proof (cases "FormatName m = ''wind''")
  case True
  with assms show ?thesis
    by (simp add: applyMatch_def Let_def caseWind_dir)
next
  case False
  then have "WindDir (fst (applyMatch env m st)) = WindDir (fst st)"
    by (simp add: applyMatch_def Let_def caseHeader_def caseAlt_def caseAltitude_def
        resolveNames_fields split: option.splits)
  with assms show ?thesis by simp
qed

lemma applyMatches_dir:
  "0 \<le> WindDir (fst st) \<and> WindDir (fst st) < 360 \<Longrightarrow>
   0 \<le> WindDir (fst (applyMatches env ms st)) \<and> WindDir (fst (applyMatches env ms st)) < 360"
  by (induction ms arbitrary: st) (simp_all add: applyMatch_dir)

lemma Parse80_dir:
  assumes "Parse80 env msg = Some r"
  shows "0 \<le> WindDir r \<and> WindDir r < 360"
proof -
  from assms have "r = fst (applyMatches env (ParseAll env (TrimSpace (Text msg))) (newResult80 msg, False))"
    by (auto simp: Parse80_def Let_def split: if_splits)
  moreover have "0 \<le> WindDir (fst (newResult80 msg, False)) \<and> WindDir (fst (newResult80 msg, False)) < 360"
    by (simp add: newResult80_def)
  ultimately show ?thesis
    using applyMatches_dir by blast
qed







lemma Parse80_wind_example:
  "Parse80 (fixedEnv [headerMatch, \<lparr>FormatName = ''wind'', Captures = [(''wdir'', ''370''), (''wspd'', ''45'')]\<rparr>])
     (exampleMessage ''80'' ''x'') =
   Some \<lparr>MsgID80 = 7, Timestamp80 = [], Tail80 = ''A6-EDA'', MsgType = ''POS'',
         FlightNum = ''UAE81'', OriginICAO = ''OMDB'', OriginName = [],
         DestICAO = ''EGLL'', DestName = [], Latitude80 = 0, Longitude80 = 0,
         Altitude = 0, Mach = [], TAS80 = 0, FuelOnBoard = 0, ETA = [],
         ReportTime = [], WindDir = 10, WindSpeedKts = 45, WindSpeedKmh = 83,
         OATC = 0, OutTime = [], OffTime = [], OnTime = [], InTime = []\<rparr>"
  by (simp add: parse80_simps)





text \<open>
  C7, as amended. For a match of the altitude format whose trimmed capture \<open>altStr\<close> is an
  integer, the stored altitude is that integer times 100 when \<open>altStr\<close> has at most three
  characters and the integer is from 1 to 500, and the integer itself otherwise: 350
  gives 35000, 35000 gives 35000, 501 gives 501, and 600 gives 600.
\<close>

theorem altitude_heuristic:
  assumes "FormatName m = ''altitude''" and "altStr = TrimSpace (capture m ''altitude'')"
  shows "(Atoi altStr = Some alt \<longrightarrow>
            Altitude (fst (applyMatch env m st)) =
              (if length altStr \<le> 3 \<and> 0 < alt \<and> alt \<le> 500 then alt * 100 else alt)) \<and>
         (altStr = ''350'' \<longrightarrow> Altitude (fst (applyMatch env m st)) = 35000) \<and>
         (altStr = ''35000'' \<longrightarrow> Altitude (fst (applyMatch env m st)) = 35000) \<and>
         (altStr = ''600'' \<longrightarrow> Altitude (fst (applyMatch env m st)) = 600) \<and>
         (altStr = ''501'' \<longrightarrow> Altitude (fst (applyMatch env m st)) = 501)"
proof -
  have g: "Altitude (fst (applyMatch env m st)) =
      (if length altStr \<le> 3 \<and> 0 < a \<and> a \<le> 500 then a * 100 else a)"
    if a: "Atoi altStr = Some a" for a
  proof (cases "length altStr \<le> 3 \<and> 0 < a \<and> a \<le> 500")
    case True
    then have "wrap64 (a * 100) = a * 100"
      by (intro wrap64_id) simp_all
    with True a assms show ?thesis
      by (simp add: applyMatch_def caseAltitude_def Let_def)
  next
    case False
    with a assms show ?thesis
      by (auto simp: applyMatch_def caseAltitude_def Let_def)
  qed
  have e: "Atoi ''350'' = Some 350" "Atoi ''35000'' = Some 35000" "Atoi ''600'' = Some 600"
    "Atoi ''501'' = Some 501"
    by (simp_all add: Atoi_def decimal_def digitVal_def isDigit_def)
  show ?thesis
    using g [of alt] g [of 350] g [of 35000] g [of 600] g [of 501] e by auto
qed

theorem altitude_heuristic_witness:
  "Altitude (fst (applyMatch (fixedEnv []) (fieldMatch ''altitude'' ''altitude'' '' 350'')
     (newResult80 (exampleMessage ''80'' ''x''), True))) = 35000 \<and>
   Altitude (fst (applyMatch (fixedEnv []) (fieldMatch ''altitude'' ''altitude'' ''35000'')
     (newResult80 (exampleMessage ''80'' ''x''), True))) = 35000 \<and>
   Altitude (fst (applyMatch (fixedEnv []) (fieldMatch ''altitude'' ''altitude'' ''501'')
     (newResult80 (exampleMessage ''80'' ''x''), True))) = 501"
  using
    altitude_heuristic [of "fieldMatch ''altitude'' ''altitude'' '' 350''" "''350''" 350
      "fixedEnv []" "(newResult80 (exampleMessage ''80'' ''x''), True)"]
    altitude_heuristic [of "fieldMatch ''altitude'' ''altitude'' ''35000''" "''35000''" 35000
      "fixedEnv []" "(newResult80 (exampleMessage ''80'' ''x''), True)"]
    altitude_heuristic [of "fieldMatch ''altitude'' ''altitude'' ''501''" "''501''" 501
      "fixedEnv []" "(newResult80 (exampleMessage ''80'' ''x''), True)"]
  by (simp add: fieldMatch_def capture_def TrimSpace_def TrimLeft.simps TrimRight.simps
      spaceWidthEnd_def asciiSpace_def)

text \<open>
  C7 as stated does not hold: the token 600 is above 500, so it is kept as 600 feet and
  not read as flight level 600.
\<close>

theorem altitude_heuristic_counterexample:
  "map_option Altitude (Parse80 (fixedEnv [headerMatch, fieldMatch ''altitude'' ''altitude'' ''600''])
     (exampleMessage ''80'' ''x'')) = Some 600 \<and> (600::int) \<noteq> 60000"
  by (simp add: parse80_simps)

text \<open>
  C9, as amended. The wind direction in a result of the FST decoder is from 0 to 360,
  both included; the wind direction in a result of the decoder of label 80 is from 0 to
  359.
\<close>

theorem wind_direction_range:
  "(Parse15 c msg = Some r \<longrightarrow> 0 \<le> WindDirection r \<and> WindDirection r \<le> 360) \<and>
   (Parse80 env msg80 = Some r80 \<longrightarrow> 0 \<le> WindDir r80 \<and> WindDir r80 < 360)"
  using Parse15_dir [of c msg r] Parse80_dir [of env msg80 r80] by blast

theorem wind_direction_range_witness:
  "map_option WindDirection (Parse15 exampleCompiler
     (exampleMessage ''15'' ''FST01EGLLWSSSN452140E0249275330 854 242 M54C 62360'')) = Some 360 \<and>
   (0::int) \<le> 360 \<and> (360::int) \<le> 360 \<and>
   map_option WindDir (Parse80 (fixedEnv [headerMatch,
       \<lparr>FormatName = ''wind'', Captures = [(''wdir'', ''370''), (''wspd'', ''45'')]\<rparr>])
     (exampleMessage ''80'' ''x'')) = Some 10 \<and> (0::int) \<le> 10 \<and> (10::int) < 360"
  using wind_direction_range [OF, of exampleCompiler
      "exampleMessage ''15'' ''FST01EGLLWSSSN452140E0249275330 854 242 M54C 62360''" _
      "fixedEnv [headerMatch,
         \<lparr>FormatName = ''wind'', Captures = [(''wdir'', ''370''), (''wspd'', ''45'')]\<rparr>]"
      "exampleMessage ''80'' ''x''"]
  by (simp add: Parse15_wind360 Parse80_wind_example)

text \<open>
  C9 as stated does not hold: the FST decoder accepts the direction field 360 and stores
  it, as for the wind token 62360, and 360 is outside the half-open range.
\<close>

theorem wind_direction_range_counterexample:
  "map_option WindDirection (Parse15 exampleCompiler
     (exampleMessage ''15'' ''FST01EGLLWSSSN452140E0249275330 854 242 M54C 62360'')) = Some 360 \<and>
   \<not> ((360::int) < 360)"
  by (simp add: Parse15_wind360)

section \<open>Message identifiers\<close>

lemma firstResult_id:
  assumes "\<forall>p \<in> set ps. \<forall>res. Parse p msg = Some res \<longrightarrow> MessageID res = ID msg"
    and "firstResult ps msg = Some res"
  shows "MessageID res = ID msg"
  using assms by (induction ps) (auto split: if_splits option.splits)

lemma dispatch_first_id:
  assumes "\<forall>p \<in> set (by_label reg (Label msg)) \<union> set (content_based reg).
             \<forall>res. Parse p msg = Some res \<longrightarrow> MessageID res = ID msg"
  shows "\<exists>res. dispatch_first reg msg = Some res \<and> MessageID res = ID msg"
proof -
  have l: "firstResult (by_label reg (Label msg)) msg = Some res \<Longrightarrow> MessageID res = ID msg" for res
    using assms by (intro firstResult_id [of "by_label reg (Label msg)"]) auto
  have c: "firstResult (content_based reg) msg = Some res \<Longrightarrow> MessageID res = ID msg" for res
    using assms by (intro firstResult_id [of "content_based reg"]) auto
  show ?thesis
    by (auto simp: dispatch_first_def envelope_def l c split: option.splits)
qed

lemma sourceRegistry_id:
  "\<forall>p \<in> set (by_label (sourceRegistry c env) l) \<union> set (content_based (sourceRegistry c env)).
     \<forall>res. Parse p msg = Some res \<longrightarrow> MessageID res = ID msg"
  by (auto simp: sourceRegistry_def fstParser_def label80Parser_def Parse15_id Parse80_id)

text \<open>
  C5. A result of the FST decoder and a result of the decoder of label 80 carry the
  identifier of the message they were decoded from. \<open>dispatch_first\<close> returns a result
  with the identifier of the message for every registry whose parsers return such
  results, and so for the registry of these two decoders.
\<close>

theorem dispatch_first_message_id:
  "(Parse15 c msg = Some r \<longrightarrow> MsgID r = ID msg) \<and>
   (Parse80 env msg = Some r80 \<longrightarrow> MsgID80 r80 = ID msg) \<and>
   ((\<forall>p \<in> set (by_label reg (Label msg)) \<union> set (content_based reg).
       \<forall>res. Parse p msg = Some res \<longrightarrow> MessageID res = ID msg) \<longrightarrow>
    (\<exists>res. dispatch_first reg msg = Some res \<and> MessageID res = ID msg)) \<and>
   (\<exists>res. dispatch_first (sourceRegistry c env) msg = Some res \<and> MessageID res = ID msg)"
  using dispatch_first_id [of reg msg] dispatch_first_id [OF sourceRegistry_id, of c env msg]
  by (auto simp: Parse15_id Parse80_id)

theorem dispatch_first_message_id_witness:
  "map_option MsgID (Parse15 exampleCompiler
     (exampleMessage ''15'' ''FST01EGLLWSSSN452140E0249275330 854 242 M54C 62360'')) = Some 7 \<and>
   map_option MessageID (dispatch_first (sourceRegistry exampleCompiler (fixedEnv [headerMatch]))
     (exampleMessage ''15'' ''FST01EGLLWSSSN452140E0249275330 854 242 M54C 62360'')) = Some 7 \<and>
   map_option MessageID (dispatch_first (sourceRegistry exampleCompiler (fixedEnv [headerMatch]))
     (exampleMessage ''ZZ'' ''x'')) = Some 7"
proof -
  let ?m = "exampleMessage ''15'' ''FST01EGLLWSSSN452140E0249275330 854 242 M54C 62360''"
  let ?z = "exampleMessage ''ZZ'' ''x''"
  let ?reg = "sourceRegistry exampleCompiler (fixedEnv [headerMatch])"
  have id: "ID ?m = 7" "ID ?z = 7" and label: "Label ?m = ''15''" "Label ?z = ''ZZ''"
    by (simp_all add: exampleMessage_def)
  obtain r where r: "Parse15 exampleCompiler ?m = Some r"
    using Parse15_wind360 by simp
  with dispatch_first_message_id [of exampleCompiler ?m r] have "MsgID r = ID ?m"
    by blast
  with r id have a: "map_option MsgID (Parse15 exampleCompiler ?m) = Some 7"
    by simp
  have "\<forall>p \<in> set (by_label ?reg (Label ?m)) \<union> set (content_based ?reg).
          \<forall>res. Parse p ?m = Some res \<longrightarrow> MessageID res = ID ?m"
    by (auto simp: label id sourceRegistry_def fstParser_def Parse15_wind360)
  with dispatch_first_message_id [of exampleCompiler ?m r "fixedEnv [headerMatch]" _ ?reg]
  obtain res where "dispatch_first ?reg ?m = Some res" and "MessageID res = ID ?m"
    by blast
  with id have b: "map_option MessageID (dispatch_first ?reg ?m) = Some 7"
    by simp
  have "\<forall>p \<in> set (by_label ?reg (Label ?z)) \<union> set (content_based ?reg).
          \<forall>res. Parse p ?z = Some res \<longrightarrow> MessageID res = ID ?z"
    by (simp add: label sourceRegistry_def)
  with dispatch_first_message_id [of exampleCompiler ?z r "fixedEnv [headerMatch]" _ ?reg]
  obtain res' where "dispatch_first ?reg ?z = Some res'" and "MessageID res' = ID ?z"
    by blast
  with id have c: "map_option MessageID (dispatch_first ?reg ?z) = Some 7"
    by simp
  from a b c show ?thesis by blast
qed

end
